theory Spec2Isabelle
  imports Main "HOL-Library.Sublist"
begin

text \<open>
  The repository holds three variants of one server that exposes tools over an image
  service's HTTP API: \<open>src/unnamed/part_000\<close> (with a cache of the size table),
  \<open>src/src/index.ts\<close> (with a normalizer of the service's error bodies) and
  \<open>src/unnamed/part_001\<close> (with neither). Each handler is modelled as a function of
  what it sees of the world (the network, the disk, the clock) and of the state it
  changes; what a handler throws is a value, and its \<open>catch\<close> block a case distinction.
\<close>

section \<open>The runtime: strings, numbers, errors\<close>

text \<open>
  A JavaScript string is modelled as a \<^typ>\<open>string\<close>: one \<^typ>\<open>char\<close> per code unit
  (the model's characters cover the 8-bit range), so \<open>substring(0, n)\<close> is \<^const>\<open>take\<close>.
  A thrown \<open>Error\<close> is represented by its message, which is all a handler's \<open>catch\<close>
  block reads of it.
\<close>

type_synonym exn = string

type_synonym bytes = "nat list"

definition digit_char :: "nat \<Rightarrow> char" where
  "digit_char d = ''0123456789'' ! d"

function show_nat :: "nat \<Rightarrow> string" where
  "show_nat n = (if n < 10 then [digit_char n] else show_nat (n div 10) @ [digit_char (n mod 10)])"
  by pat_completeness auto
termination
  by (relation "measure (\<lambda>n. n)") auto

declare show_nat.simps [simp del]

text \<open>The decimal rendering of an integer.\<close>

definition show_int :: "int \<Rightarrow> string" where
  "show_int i = (if i < 0 then CHR ''-'' # show_nat (nat (- i)) else show_nat (nat i))"

text \<open>
  A number of the service's answers is modelled by what the handlers observe of it:
  whether it is zero (the one falsy number JSON can carry, which \<open>if (n)\<close> and
  \<open>n || d\<close> test), and the text that \<open>`${n}`\<close> prints for it. The printing is the
  runtime's: digits for an integer of moderate size, a fraction as \<open>0.5\<close>, a magnitude
  from \<open>10^21\<close> on with an exponent, as \<open>1e+21\<close>.
\<close>

datatype js_number = Number (is_zero: bool) (printed: string)

text \<open>An integer of magnitude up to \<open>2^53\<close> prints as its decimal rendering.\<close>

definition js_int :: "int \<Rightarrow> js_number" where
  "js_int i = Number (i = 0) (show_int i)"

text \<open>\<open>String.prototype.includes\<close>: the pattern occurs as a contiguous run.\<close>

fun includes_str :: "string \<Rightarrow> string \<Rightarrow> bool" where
  "includes_str [] pat = (pat = [])"
| "includes_str (c # cs) pat = (prefix pat (c # cs) \<or> includes_str cs pat)"

section \<open>The HTTP wrapper\<close>

record config =
  baseUrl :: string
  apiKey :: string

text \<open>The multipart body of an upload: one field, its blob and the file name sent with it.\<close>

record FormData =
  field :: string
  blob :: bytes
  blobType :: string
  fileName :: string

text \<open>\<open>RequestInit\<close> as the handlers fill it: no handler passes headers of its own.\<close>

record RequestInit =
  httpMethod :: "string option"
  body :: "FormData option"

definition GET_init :: RequestInit where
  "GET_init = \<lparr>httpMethod = None, body = None\<rparr>"

record fetch_request =
  url :: string
  headers :: "(string \<times> string) list"
  init :: RequestInit

record response =
  status :: nat
  statusText :: string
  contentType :: "string option"
  responseText :: string

text \<open>\<open>fetch\<close> either rejects (a transport error) or resolves to a response.\<close>

datatype fetch_outcome = Rejected exn | Response response

text \<open>\<open>response.ok\<close>: the status is in the range 200 to 299.\<close>

definition response_ok :: "response \<Rightarrow> bool" where
  "response_ok r = (200 \<le> status r \<and> status r \<le> 299)"

text \<open>
  What one tool invocation sees of the world: the network, the local disk, and the
  readings \<open>Date.now()\<close> gives at the three places the cache reads the clock (on entry
  to \<open>getSizeCache\<close>, after a successful refresh, and on exit from \<open>getSizeCache\<close>).
\<close>

record env =
  fetch :: "fetch_request \<Rightarrow> fetch_outcome"
  readFile :: "string \<Rightarrow> exn + bytes"
  now_entry :: int
  now_refreshed :: int
  now_exit :: int

text \<open>
  A call of the wrapper: the relative endpoint and the options a handler passed. The
  list of calls made so far is kept beside the program's own state, to observe what
  was requested.
\<close>

type_synonym api_call = "string \<times> RequestInit"

definition makeApiCall :: "config \<Rightarrow> env \<Rightarrow> string \<Rightarrow> RequestInit \<Rightarrow> fetch_outcome" where
  "makeApiCall cfg e endpoint options =
     fetch e \<lparr>url = baseUrl cfg @ endpoint,
              headers = [(''X-API-Key'', apiKey cfg)],
              init = options\<rparr>"

section \<open>Tool results\<close>

text \<open>
  What a handler returns: a list of content blocks and the optional \<open>isError\<close> flag
  (\<open>None\<close> when the object literal has no such property). The text of a block is a
  string in every handler but one, which is why the type of the text is a parameter.
\<close>

record 'a content_block =
  blockType :: string
  blockText :: 'a

record 'a tool_result =
  content :: "'a content_block list"
  isError :: "bool option"

definition text_result :: "'a \<Rightarrow> 'a tool_result" where
  "text_result t = \<lparr>content = [\<lparr>blockType = ''text'', blockText = t\<rparr>], isError = None\<rparr>"

text \<open>
  The \<open>catch\<close> block every handler ends with:
  \<open>text: `Error: ${error instanceof Error ? error.message : String(error)}`, isError: true\<close>.
  Everything thrown inside a handler is an \<open>Error\<close>, so the text is its message.
\<close>

definition error_result :: "exn \<Rightarrow> string tool_result" where
  "error_result msg =
     \<lparr>content = [\<lparr>blockType = ''text'', blockText = ''Error: '' @ msg\<rparr>], isError = Some True\<rparr>"

abbreviation (input) nl :: string where
  "nl \<equiv> [CHR 0x0A]"

text \<open>The multiplication sign U+00D7 the size lines print between width and height.\<close>

abbreviation (input) times_sign :: string where
  "times_sign \<equiv> [CHR 0xD7]"

text \<open>\<open>filename.split("/").pop() || "image"\<close>: what follows the last slash, if anything.\<close>

definition upload_name :: "string \<Rightarrow> string" where
  "upload_name filename =
     (let lastPart = rev (takeWhile (\<lambda>c. c \<noteq> CHR ''/'') (rev filename))
      in if lastPart = [] then ''image'' else lastPart)"

definition upload_form :: "bytes \<Rightarrow> string \<Rightarrow> FormData" where
  "upload_form fileBuffer filename =
     \<lparr>field = ''image'', blob = fileBuffer, blobType = ''application/octet-stream'',
      fileName = upload_name filename\<rparr>"

definition POST_init :: "FormData option \<Rightarrow> RequestInit" where
  "POST_init b = \<lparr>httpMethod = Some ''POST'', body = b\<rparr>"

section \<open>The server with the size cache (\<open>src/unnamed/part_000\<close>)\<close>

text \<open>
  This variant declares the shapes of the service's answers as interfaces and reads a
  body with \<open>(await response.json()) as T\<close>. Its definitions carry the prefix \<open>p0_\<close>
  where another variant has a handler of the same name.
\<close>

record CategorySize =
  name :: string
  width :: js_number
  height :: js_number
  mimeType :: string

record Category =
  name :: string
  sizes :: "CategorySize list"

record ResizedFile =
  size' :: string
  s3Path :: string

record ImageMetadata =
  id' :: string
  category :: string
  downloadedS3Path :: "string option"
  originalS3Path :: "string option"
  resizedFiles :: "ResizedFile list option"

record url_response =
  url_field :: "string option"

text \<open>An element of the category list may be \<open>null\<close>, which the code tests for.\<close>

type_synonym categories = "Category option list"

text \<open>
  \<open>(await response.json()) as T\<close> gives the body parsed and taken at the declared type
  (\<open>Inr\<close>), or the message of what is thrown (\<open>Inl\<close>): the parser's \<open>SyntaxError\<close> for a
  body that is not JSON. \<open>JSON.stringify\<close> prints a value. Both belong to the runtime, so
  they are parameters of the model.
\<close>

record typed_json =
  json_categories :: "string \<Rightarrow> exn + categories"
  json_metadata :: "string \<Rightarrow> exn + ImageMetadata"
  json_url :: "string \<Rightarrow> exn + url_response option"
  stringify_metadata :: "ImageMetadata \<Rightarrow> string"
  stringify2_url :: "url_response option \<Rightarrow> string"

text \<open>
  The object \<open>localSizeCache\<close> starts as \<open>{}\<close> and is filled by the assignments
  \<open>localSizeCache[size.name] = size\<close>. Such an assignment creates or overwrites an own
  property, for every name but \<open>__proto__\<close>: that name is the accessor every object
  inherits from \<open>Object.prototype\<close>, whose setter makes the assigned object the
  prototype and adds no property. So the object is modelled by its own properties
  together with its prototype: \<open>None\<close> for the initial \<open>Object.prototype\<close>, or
  the size that was assigned to \<open>__proto__\<close> last.
\<close>

record size_table =
  own :: "string \<rightharpoonup> CategorySize"
  proto :: "CategorySize option"

text \<open>The object literal \<open>{}\<close>.\<close>

definition empty_table :: size_table where
  "empty_table = \<lparr>own = Map.empty, proto = None\<rparr>"

text \<open>
  The three variables of the cache, and the calls of the wrapper made so far; \<open>None\<close>
  is \<open>undefined\<close>.
\<close>

record cache_state =
  sizeCache :: "size_table option"
  lastUpdatedAt :: "int option"
  lastAccessedAt :: "int option"
  calls :: "api_call list"

definition initial_state :: cache_state where
  "initial_state = \<lparr>sizeCache = None, lastUpdatedAt = None, lastAccessedAt = None, calls = []\<rparr>"

text \<open>A call of the wrapper from this variant: the response, and the call noted in the state.\<close>

definition p0_call ::
  "config \<Rightarrow> env \<Rightarrow> cache_state \<Rightarrow> string \<Rightarrow> RequestInit \<Rightarrow> fetch_outcome \<times> cache_state" where
  "p0_call cfg e s endpoint options =
     (makeApiCall cfg e endpoint options, s\<lparr>calls := calls s @ [(endpoint, options)]\<rparr>)"

text \<open>
  The inner loop of \<open>getCategories\<close>: \<open>localSizeCache[size.name] = size\<close>, which sets
  the prototype when the name is \<open>__proto__\<close> and an own property otherwise.
\<close>

primrec add_sizes :: "CategorySize list \<Rightarrow> size_table \<Rightarrow> size_table" where
  "add_sizes [] t = t"
| "add_sizes (sz # rest) t =
     add_sizes rest
       (if CategorySize.name sz = ''__proto__'' then t\<lparr>proto := Some sz\<rparr>
        else t\<lparr>own := (own t)(CategorySize.name sz \<mapsto> sz)\<rparr>)"

text \<open>
  The guard \<open>category && category.name && Array.isArray(category.sizes)\<close>: the category
  is not \<open>null\<close> and its name is not the empty string (the sizes of a \<open>Category\<close> are an
  array by its type).
\<close>

fun category_guard :: "Category option \<Rightarrow> bool" where
  "category_guard None = False"
| "category_guard (Some c) = (Category.name c \<noteq> [])"

primrec add_categories :: "categories \<Rightarrow> size_table \<Rightarrow> size_table" where
  "add_categories [] t = t"
| "add_categories (c # rest) t =
     add_categories rest (if category_guard c then add_sizes (sizes (the c)) t else t)"

definition size_list_call :: api_call where
  "size_list_call = (''/api/size/list'', GET_init)"

text \<open>
  \<open>getCategories\<close>. Every failure inside the \<open>try\<close> (the fetch rejecting, a status
  outside 2xx, a body that does not parse) ends in \<open>return null\<close> with the cache
  variables untouched; they are assigned only after the whole mapping is built.
\<close>

definition getCategories ::
  "typed_json \<Rightarrow> config \<Rightarrow> env \<Rightarrow> cache_state \<Rightarrow> categories option \<times> cache_state" where
  "getCategories rt cfg e s =
     (case p0_call cfg e s (fst size_list_call) (snd size_list_call) of
        (Rejected err, s1) \<Rightarrow> (None, s1)
      | (Response r, s1) \<Rightarrow>
          if \<not> response_ok r then (None, s1)
          else (case json_categories rt (responseText r) of
                  Inl err \<Rightarrow> (None, s1)
                | Inr cats \<Rightarrow>
                    (Some cats,
                     s1\<lparr>sizeCache := Some (add_categories cats empty_table),
                        lastUpdatedAt := Some (now_refreshed e)\<rparr>)))"

definition fiveMinutesInMs :: int where
  "fiveMinutesInMs = 5 * 60 * 1000"

text \<open>
  The test of \<open>getSizeCache\<close>:
  \<open>!sizeCache || !lastAccessedAt || now - lastAccessedAt > fiveMinutesInMs\<close>.
  A timestamp is falsy when it is \<open>undefined\<close> or \<open>0\<close>.
\<close>

definition needs_reload :: "cache_state \<Rightarrow> int \<Rightarrow> bool" where
  "needs_reload s now =
     (sizeCache s = None \<or>
      (case lastAccessedAt s of
         None \<Rightarrow> True
       | Some t \<Rightarrow> t = 0 \<or> now - t > fiveMinutesInMs))"

definition getSizeCache ::
  "typed_json \<Rightarrow> config \<Rightarrow> env \<Rightarrow> cache_state \<Rightarrow> size_table option \<times> cache_state" where
  "getSizeCache rt cfg e s =
     (let now = now_entry e;
          s1 = (if needs_reload s now then snd (getCategories rt cfg e s) else s);
          s2 = s1\<lparr>lastAccessedAt := Some (now_exit e)\<rparr>
      in (sizeCache s2, s2))"

text \<open>
  The methods every object inherits from \<open>Object.prototype\<close> (its accessor \<open>__proto__\<close>
  apart).
\<close>

definition object_prototype_methods :: "string list" where
  "object_prototype_methods =
     [''constructor'', ''hasOwnProperty'', ''isPrototypeOf'', ''propertyIsEnumerable'',
      ''toLocaleString'', ''toString'', ''valueOf'', ''__defineGetter__'', ''__defineSetter__'',
      ''__lookupGetter__'', ''__lookupSetter__'']"

text \<open>
  What \<open>cache[key]\<close> reads, as far as its reader tells values apart: a size object,
  another value that is truthy (a method, \<open>Object.prototype\<close> itself, a string that is
  not empty, a number that is not zero), or a falsy value (\<open>undefined\<close>, the empty
  string, zero). An own property is found first; then the properties of a size that was
  made the prototype, which are its four fields; then what \<open>Object.prototype\<close> holds,
  where \<open>__proto__\<close> reads the prototype of the object itself.
\<close>

datatype looked_up = SizeObject CategorySize | OtherTruthy | Falsy

definition cache_get :: "size_table \<Rightarrow> string \<Rightarrow> looked_up" where
  "cache_get t k =
     (case own t k of
        Some sz \<Rightarrow> SizeObject sz
      | None \<Rightarrow>
          (case proto t of
             Some p \<Rightarrow>
               if k = ''name'' then (if CategorySize.name p \<noteq> [] then OtherTruthy else Falsy)
               else if k = ''width'' then (if is_zero (width p) then Falsy else OtherTruthy)
               else if k = ''height'' then (if is_zero (height p) then Falsy else OtherTruthy)
               else if k = ''mimeType'' then (if mimeType p \<noteq> [] then OtherTruthy else Falsy)
               else if k = ''__proto__'' then SizeObject p
               else if k \<in> set object_prototype_methods then OtherTruthy
               else Falsy
           | None \<Rightarrow>
               if k = ''__proto__'' \<or> k \<in> set object_prototype_methods then OtherTruthy
               else Falsy))"

text \<open>
  One line of the size list in \<open>buildImageMetadataResponseText\<close>:
  \<open>const sizeInfo = cache?.[resizedFile.size]; if (sizeInfo) ...\<close>. A truthy value that
  is not a size object has neither \<open>width\<close> nor \<open>height\<close>, and the template prints
  \<open>undefined\<close> for both.
\<close>

definition resized_line :: "size_table option \<Rightarrow> ResizedFile \<Rightarrow> string" where
  "resized_line cache resizedFile =
     (case (case cache of None \<Rightarrow> Falsy | Some t \<Rightarrow> cache_get t (size' resizedFile)) of
        SizeObject sizeInfo \<Rightarrow>
          ''- **'' @ size' resizedFile @ ''**: '' @ printed (width sizeInfo) @ times_sign
            @ printed (height sizeInfo) @ '' pixels'' @ nl
      | OtherTruthy \<Rightarrow>
          ''- **'' @ size' resizedFile @ ''**: undefined'' @ times_sign @ ''undefined pixels'' @ nl
      | Falsy \<Rightarrow> ''- **'' @ size' resizedFile @ ''**'' @ nl)"

definition buildImageMetadataResponseText ::
  "typed_json \<Rightarrow> config \<Rightarrow> env \<Rightarrow> cache_state \<Rightarrow> ImageMetadata \<Rightarrow> string \<Rightarrow> string \<times> cache_state" where
  "buildImageMetadataResponseText rt cfg e s metadata label =
     (let formattedText =
            ''## '' @ label @ nl @ nl
            @ ''**Image ID:** '' @ id' metadata @ nl @ nl
            @ ''**Category:** '' @ category metadata @ nl @ nl
      in if (case resizedFiles metadata of None \<Rightarrow> False | Some fs \<Rightarrow> length fs > 0)
         then (case getSizeCache rt cfg e s of
                 (cache, s1) \<Rightarrow>
                   (formattedText @ ''**Available Sizes:**'' @ nl @ nl
                      @ concat (map (resized_line cache) (the (resizedFiles metadata))) @ nl,
                    s1))
         else (formattedText @ ''*Note: No resized files available for this image.*'' @ nl @ nl, s))"

definition p0_get_image_metadata ::
  "typed_json \<Rightarrow> config \<Rightarrow> env \<Rightarrow> cache_state \<Rightarrow> string \<Rightarrow> string tool_result \<times> cache_state" where
  "p0_get_image_metadata rt cfg e s imageServiceId =
     (case p0_call cfg e s (''/api/image/'' @ imageServiceId) GET_init of
        (Rejected err, s1) \<Rightarrow> (error_result err, s1)
      | (Response r, s1) \<Rightarrow>
          if \<not> response_ok r
          then (error_result (''Failed to get image metadata: '' @ show_nat (status r) @ '' ''
                               @ responseText r), s1)
          else (case json_metadata rt (responseText r) of
                  Inl err \<Rightarrow> (error_result err, s1)
                | Inr metadata \<Rightarrow>
                    (case buildImageMetadataResponseText rt cfg e s1 metadata ''Image Metadata'' of
                       (formattedText, s2) \<Rightarrow> (text_result formattedText, s2))))"

text \<open>
  \<open>transcode_image\<close> repeats the body of \<open>buildImageMetadataResponseText\<close> inline, under
  the heading \<open>Image Transcode Result\<close>.
\<close>

definition p0_transcode_image ::
  "typed_json \<Rightarrow> config \<Rightarrow> env \<Rightarrow> cache_state \<Rightarrow> string \<Rightarrow> string tool_result \<times> cache_state" where
  "p0_transcode_image rt cfg e s imageServiceId =
     (case p0_call cfg e s (''/api/image/'' @ imageServiceId @ ''/transcode'') (POST_init None) of
        (Rejected err, s1) \<Rightarrow> (error_result err, s1)
      | (Response r, s1) \<Rightarrow>
          if \<not> response_ok r
          then (error_result (''Failed to transcode image: '' @ show_nat (status r) @ '' ''
                               @ responseText r), s1)
          else (case json_metadata rt (responseText r) of
                  Inl err \<Rightarrow> (error_result err, s1)
                | Inr metadata \<Rightarrow>
                    (case buildImageMetadataResponseText rt cfg e s1 metadata
                            ''Image Transcode Result'' of
                       (formattedText, s2) \<Rightarrow> (text_result formattedText, s2))))"

text \<open>One size of a category, as \<open>list_categories\<close> prints it; \<open>x || "?"\<close> replaces a falsy value.\<close>

definition p0_size_line :: "CategorySize \<Rightarrow> string" where
  "p0_size_line sz =
     ''- **'' @ (if CategorySize.name sz \<noteq> [] then CategorySize.name sz else ''Unknown'') @ ''**: ''
       @ (if \<not> is_zero (width sz) then printed (width sz) else ''?'') @ times_sign
       @ (if \<not> is_zero (height sz) then printed (height sz) else ''?'') @ '' pixels (''
       @ (if mimeType sz \<noteq> [] then mimeType sz else ''Unknown'') @ '')'' @ nl"

definition p0_category_block :: "Category \<Rightarrow> string" where
  "p0_category_block c =
     ''### '' @ (if Category.name c \<noteq> [] then Category.name c else ''Unknown'') @ nl @ nl
       @ (if length (sizes c) > 0
          then ''**Available Sizes:**'' @ nl @ nl @ concat (map p0_size_line (sizes c)) @ nl
          else ''No sizes configured for this category.'' @ nl @ nl)"

text \<open>
  The loop of \<open>list_categories\<close> over the categories. Its \<open>return\<close> stands inside the
  loop body, after the \<open>if (category !== null)\<close>: the first iteration returns. With no
  category the loop does not run, and the handler ends without a \<open>return\<close> (the result
  is \<open>undefined\<close>, here \<open>None\<close>).
\<close>

fun p0_list_loop :: "categories \<Rightarrow> string \<Rightarrow> string tool_result option" where
  "p0_list_loop [] formattedText = None"
| "p0_list_loop (c # rest) formattedText =
     Some (text_result
       (case c of None \<Rightarrow> formattedText | Some cat \<Rightarrow> formattedText @ p0_category_block cat))"

definition p0_list_categories ::
  "typed_json \<Rightarrow> config \<Rightarrow> env \<Rightarrow> cache_state \<Rightarrow> string tool_result option \<times> cache_state" where
  "p0_list_categories rt cfg e s =
     (case getCategories rt cfg e s of
        (None, s1) \<Rightarrow> (Some (text_result ''No categories are currently available.''), s1)
      | (Some cats, s1) \<Rightarrow>
          (p0_list_loop cats
             (''Found '' @ show_nat (length cats) @ '' categor''
                @ (if length cats = 1 then ''y'' else ''ies'') @ '':'' @ nl @ nl),
           s1))"

text \<open>
  In \<open>get_resized_image\<close> the test \<open>parsedResponse && parsedResponse.url\<close> is repeated
  inside its own true branch, so the warning text after the inner test is never reached.
\<close>

definition signed_url_note :: string where
  "signed_url_note =
     ''> This is a signed URL that can be used to download the image at the requested size. ''
     @ ''The URL includes authentication parameters and may expire.'' @ nl @ nl"

definition p0_get_resized_image ::
  "typed_json \<Rightarrow> config \<Rightarrow> env \<Rightarrow> cache_state \<Rightarrow> string \<Rightarrow> string \<Rightarrow> string tool_result \<times> cache_state" where
  "p0_get_resized_image rt cfg e s imageServiceId sz =
     (case p0_call cfg e s (''/api/image/s/'' @ imageServiceId @ ''/'' @ sz) GET_init of
        (Rejected err, s1) \<Rightarrow> (error_result err, s1)
      | (Response r, s1) \<Rightarrow>
          if \<not> response_ok r
          then (error_result (''Failed to get resized image URL: '' @ show_nat (status r) @ '' ''
                               @ responseText r), s1)
          else (case json_url rt (responseText r) of
                  Inl err \<Rightarrow> (error_result err, s1)
                | Inr parsedResponse \<Rightarrow>
                    (case (case parsedResponse of None \<Rightarrow> None | Some p \<Rightarrow> url_field p) of
                       Some u \<Rightarrow>
                         if u \<noteq> []
                         then (text_result
                                 (''## Resized Image URL'' @ nl @ nl
                                  @ ''**Image UUID:** '' @ imageServiceId @ nl @ nl
                                  @ ''**Requested Size:** '' @ sz @ nl @ nl
                                  @ ''**Download URL:** '' @ u @ nl @ nl
                                  @ signed_url_note), s1)
                         else (text_result (stringify2_url rt parsedResponse), s1)
                     | None \<Rightarrow> (text_result (stringify2_url rt parsedResponse), s1))))"

text \<open>\<open>`${resize}`\<close> for a boolean.\<close>

definition show_bool :: "bool \<Rightarrow> string" where
  "show_bool b = (if b then ''true'' else ''false'')"

text \<open>\<open>uploadImage\<close>: reads the file, posts it, and returns the metadata or throws.\<close>

definition uploadImage ::
  "typed_json \<Rightarrow> config \<Rightarrow> env \<Rightarrow> cache_state \<Rightarrow> string \<Rightarrow> string \<Rightarrow> bool
     \<Rightarrow> (exn + ImageMetadata) \<times> cache_state" where
  "uploadImage rt cfg e s cat filename resize =
     (case readFile e filename of
        Inl err \<Rightarrow> (Inl err, s)
      | Inr fileBuffer \<Rightarrow>
          (case p0_call cfg e s (''/api/image/'' @ cat @ ''?forceImmediateResize='' @ show_bool resize)
                  (POST_init (Some (upload_form fileBuffer filename))) of
             (Rejected err, s1) \<Rightarrow> (Inl err, s1)
           | (Response r, s1) \<Rightarrow>
               if \<not> response_ok r
               then (Inl (''Failed to upload image: '' @ show_nat (status r) @ '' '' @ responseText r), s1)
               else (case json_metadata rt (responseText r) of
                       Inl err \<Rightarrow> (Inl err, s1)
                     | Inr imageMetadata \<Rightarrow>
                         if id' imageMetadata = [] \<or> category imageMetadata = []
                         then (Inl (''Invalid response format: missing required fields. Response: ''
                                     @ stringify_metadata rt imageMetadata), s1)
                         else (Inr imageMetadata, s1))))"

definition p0_upload_and_resize_image ::
  "typed_json \<Rightarrow> config \<Rightarrow> env \<Rightarrow> cache_state \<Rightarrow> string \<Rightarrow> string \<Rightarrow> string tool_result \<times> cache_state" where
  "p0_upload_and_resize_image rt cfg e s cat filename =
     (case uploadImage rt cfg e s cat filename True of
        (Inl err, s1) \<Rightarrow> (error_result err, s1)
      | (Inr metadata, s1) \<Rightarrow>
          (case buildImageMetadataResponseText rt cfg e s1 metadata ''Image uploaded and resized'' of
             (formattedText, s2) \<Rightarrow> (text_result formattedText, s2)))"

definition p0_upload_image ::
  "typed_json \<Rightarrow> config \<Rightarrow> env \<Rightarrow> cache_state \<Rightarrow> string \<Rightarrow> string \<Rightarrow> string tool_result \<times> cache_state" where
  "p0_upload_image rt cfg e s cat filename =
     (case uploadImage rt cfg e s cat filename False of
        (Inl err, s1) \<Rightarrow> (error_result err, s1)
      | (Inr metadata, s1) \<Rightarrow>
          (case buildImageMetadataResponseText rt cfg e s1 metadata ''Image uploaded'' of
             (formattedText, s2) \<Rightarrow> (text_result formattedText, s2)))"

section \<open>JSON values as the handlers of the other variants inspect them\<close>

text \<open>
  The other two variants keep the parsed body at type \<open>unknown\<close> and test its shape at
  run time. An object lists its own properties, each key once, in the order
  \<open>Object.entries\<close> enumerates them.
\<close>

datatype json =
    JNull
  | JBool bool
  | JNum js_number
  | JStr string
  | JArr "json list"
  | JObj "(string \<times> json) list"

text \<open>
  \<open>JSON.parse\<close> (the parsed value, or the message of the \<open>SyntaxError\<close>),
  \<open>JSON.stringify(v)\<close> and \<open>JSON.stringify(v, null, 2)\<close> belong to the runtime.
\<close>

record js_runtime =
  JSON_parse :: "string \<Rightarrow> exn + json"
  JSON_stringify :: "json \<Rightarrow> string"
  JSON_stringify2 :: "json \<Rightarrow> string"

text \<open>What \<open>if (v)\<close> and \<open>v || d\<close> test.\<close>

fun truthy :: "json \<Rightarrow> bool" where
  "truthy JNull = False"
| "truthy (JBool b) = b"
| "truthy (JNum n) = (\<not> is_zero n)"
| "truthy (JStr s) = (s \<noteq> [])"
| "truthy (JArr xs) = True"
| "truthy (JObj kvs) = True"

text \<open>\<open>typeof v === "object" && v !== null\<close>: objects and arrays.\<close>

fun is_object :: "json \<Rightarrow> bool" where
  "is_object (JArr xs) = True"
| "is_object (JObj kvs) = True"
| "is_object v = False"

text \<open>
  \<open>v.k\<close> for the property names the handlers read (\<open>id\<close>, \<open>name\<close>, \<open>sizes\<close>, \<open>url\<close>,
  \<open>error\<close> and the like): the value of the own property, \<open>None\<close> for \<open>undefined\<close>. None of
  these names is an index, \<open>length\<close> or a method, so an array has none of them.
\<close>

fun property :: "json \<Rightarrow> string \<Rightarrow> json option" where
  "property (JObj kvs) k = map_of kvs k"
| "property v k = None"

text \<open>\<open>Object.entries\<close> of an object or an array.\<close>

fun object_entries :: "json \<Rightarrow> (string \<times> json) list" where
  "object_entries (JObj kvs) = kvs"
| "object_entries (JArr xs) = zip (map show_nat [0..<length xs]) xs"
| "object_entries v = []"

text \<open>\<open>parts.join(sep)\<close>, for parts whose conversion to a string may have thrown.\<close>

fun join_with :: "string \<Rightarrow> (exn + string) list \<Rightarrow> exn + string" where
  "join_with sep [] = Inr []"
| "join_with sep [p] = p"
| "join_with sep (p # q # ps) =
     (case p of
        Inl err \<Rightarrow> Inl err
      | Inr a \<Rightarrow> (case join_with sep (q # ps) of Inl err \<Rightarrow> Inl err | Inr b \<Rightarrow> Inr (a @ sep @ b)))"

text \<open>
  \<open>`${v}`\<close>: the conversion of a value to a string. An array is joined with commas
  (\<open>null\<close> elements print as nothing); an object prints as \<open>[object Object]\<close>, unless it
  has an own property \<open>toString\<close>, which after \<open>JSON.parse\<close> is never callable: then the
  conversion throws a \<open>TypeError\<close>.
\<close>

fun js_string :: "json \<Rightarrow> exn + string" where
  "js_string JNull = Inr ''null''"
| "js_string (JBool b) = Inr (if b then ''true'' else ''false'')"
| "js_string (JNum n) = Inr (printed n)"
| "js_string (JStr s) = Inr s"
| "js_string (JArr xs) =
     join_with '','' (map (\<lambda>x. if x = JNull then Inr [] else js_string x) xs)"
| "js_string (JObj kvs) =
     (if map_of kvs ''toString'' \<noteq> None then Inl ''Cannot convert object to primitive value''
      else Inr ''[object Object]'')"

text \<open>\<open>v.k || d\<close> with a string default.\<close>

definition or_default :: "json option \<Rightarrow> string \<Rightarrow> json" where
  "or_default v d = (case v of None \<Rightarrow> JStr d | Some x \<Rightarrow> if truthy x then x else JStr d)"

text \<open>Sequencing of steps that may throw: the first thrown error ends the computation.\<close>

definition and_then :: "exn + 'a \<Rightarrow> ('a \<Rightarrow> exn + 'b) \<Rightarrow> exn + 'b" where
  "and_then r f = (case r of Inl err \<Rightarrow> Inl err | Inr x \<Rightarrow> f x)"

section \<open>The response normalizer (\<open>src/src/index.ts\<close>)\<close>

text \<open>
  Every handler of this variant reads the body as text and then runs the same two steps,
  which differ between handlers in the wording of the failure only. Definitions of this
  variant carry the prefix \<open>ix_\<close>.
\<close>

text \<open>Splitting a text at the first occurrence of a pattern: what stands before and after it.\<close>

fun find_str :: "string \<Rightarrow> string \<Rightarrow> (string \<times> string) option" where
  "find_str pat [] = (if pat = [] then Some ([], []) else None)"
| "find_str pat (c # cs) =
     (if prefix pat (c # cs) then Some ([], drop (length pat) (c # cs))
      else map_option (\<lambda>(before, after). (c # before, after)) (find_str pat cs))"

text \<open>
  \<open>responseText.match(/<pre>(.*?)<\/pre>/s)\<close>: the group of the match, if there is one.
  The match starts at the first \<open><pre>\<close> and its lazy group ends at the first \<open></pre>\<close>
  after it.
\<close>

definition match_pre :: "string \<Rightarrow> string option" where
  "match_pre s =
     (case find_str ''<pre>'' s of
        None \<Rightarrow> None
      | Some (before, rest) \<Rightarrow>
          (case find_str ''</pre>'' rest of
             None \<Rightarrow> None
           | Some (inner, after) \<Rightarrow> Some inner))"

text \<open>The characters \<open>\s\<close> matches and \<open>trim\<close> removes, among the 8-bit ones.\<close>

definition js_space :: "char \<Rightarrow> bool" where
  "js_space c = (c \<in> {CHR 0x09, CHR 0x0A, CHR 0x0B, CHR 0x0C, CHR 0x0D, CHR 0x20, CHR 0xA0})"

text \<open>A match of \<open><br\s*\/?>\<close> at the head of the text: what follows the match.\<close>

definition match_br :: "string \<Rightarrow> string option" where
  "match_br s =
     (if prefix ''<br'' s
      then (case dropWhile js_space (drop 3 s) of
              c # rest \<Rightarrow>
                if c = CHR ''>'' then Some rest
                else if c = CHR ''/'' then
                  (case rest of d # rest' \<Rightarrow> if d = CHR ''>'' then Some rest' else None | [] \<Rightarrow> None)
                else None
            | [] \<Rightarrow> None)
      else None)"

text \<open>\<open>.replace(/<br\s*\/?>/g, "\n")\<close>.\<close>

function replace_br :: "string \<Rightarrow> string" where
  "replace_br [] = []"
| "replace_br (c # cs) =
     (case match_br (c # cs) of
        Some rest \<Rightarrow> CHR 0x0A # replace_br rest
      | None \<Rightarrow> c # replace_br cs)"
  by pat_completeness auto
termination
proof (relation "measure length")
  show "wf (measure length)" by simp
next
  fix c :: char and cs rest :: string
  assume m: "match_br (c # cs) = Some rest"
  have d: "length (dropWhile js_space (drop 3 (c # cs))) \<le> length cs"
    by (rule order_trans [OF length_dropWhile_le]) simp
  from m have "length rest < length (dropWhile js_space (drop 3 (c # cs)))"
    by (auto simp add: match_br_def split: if_splits list.splits)
  with d show "(rest, c # cs) \<in> measure length" by simp
next
  fix c :: char and cs :: string
  show "(cs, c # cs) \<in> measure length" by simp
qed

text \<open>\<open>.replace(/pat/g, rep)\<close> for a pattern that is a fixed, non-empty text.\<close>

function replace_all :: "string \<Rightarrow> string \<Rightarrow> string \<Rightarrow> string" where
  "replace_all pat rep [] = []"
| "replace_all pat rep (c # cs) =
     (if pat \<noteq> [] \<and> prefix pat (c # cs)
      then rep @ replace_all pat rep (drop (length pat) (c # cs))
      else c # replace_all pat rep cs)"
  by pat_completeness auto
termination
  by (relation "measure (\<lambda>(pat, rep, s). length s)") (auto simp add: neq_Nil_conv)

definition trim :: "string \<Rightarrow> string" where
  "trim s = rev (dropWhile js_space (rev (dropWhile js_space s)))"

text \<open>
  What the handler makes of the group of the match:
  \<open>.replace(/<br\s*\/?>/g, "\n").replace(/&nbsp;/g, " ").replace(/&#39;/g, "'").trim()\<close>.
\<close>

definition htmlError :: "string \<Rightarrow> string" where
  "htmlError inner =
     trim (replace_all ''&#39;'' [CHR 0x27] (replace_all ''&nbsp;'' '' '' (replace_br inner)))"

text \<open>
  \<open>response.headers.get("content-type") || ""\<close>, and the variable \<open>errorMessage\<close> of the
  \<open>if (!response.ok)\<close> block: the raw text to begin with, replaced according to the
  content type.
\<close>

definition content_type :: "response \<Rightarrow> string" where
  "content_type r = (case contentType r of None \<Rightarrow> [] | Some c \<Rightarrow> c)"

definition errorMessage :: "js_runtime \<Rightarrow> response \<Rightarrow> string" where
  "errorMessage rt r =
     (if includes_str (content_type r) ''application/json''
      then (case JSON_parse rt (responseText r) of
              Inl parseError \<Rightarrow> responseText r
            | Inr errorData \<Rightarrow>
                if is_object errorData \<and> property errorData ''error'' \<noteq> None
                then JSON_stringify2 rt errorData
                else responseText r)
      else if includes_str (content_type r) ''text/html''
      then (case match_pre (responseText r) of
              Some inner \<Rightarrow> ''Server error: '' @ htmlError inner
            | None \<Rightarrow> ''Server returned HTML error page ('' @ show_nat (status r) @ '')'')
      else responseText r)"

text \<open>
  The two steps together: a failed response throws \<open>`${failure}: ${response.status}
  ${errorMessage}`\<close>, a body that does not parse throws \<open>Invalid JSON response\<close> with the
  first 200 characters of the text, and otherwise the parsed data is the result.
\<close>

definition normalize_response :: "js_runtime \<Rightarrow> string \<Rightarrow> response \<Rightarrow> exn + json" where
  "normalize_response rt failure r =
     (if \<not> response_ok r
      then Inl (failure @ '': '' @ show_nat (status r) @ '' '' @ errorMessage rt r)
      else (case JSON_parse rt (responseText r) of
              Inl parseError \<Rightarrow> Inl (''Invalid JSON response: '' @ take 200 (responseText r))
            | Inr data \<Rightarrow> Inr data))"

text \<open>A call of the wrapper from a handler without other state: the response, and the call noted.\<close>

definition logged_call ::
  "config \<Rightarrow> env \<Rightarrow> api_call list \<Rightarrow> string \<Rightarrow> RequestInit \<Rightarrow> fetch_outcome \<times> api_call list" where
  "logged_call cfg e log endpoint options =
     (makeApiCall cfg e endpoint options, log @ [(endpoint, options)])"

text \<open>The \<open>try\<close> block of a handler ended, by a \<open>return\<close> of the text or by a throw.\<close>

definition finish :: "exn + string \<Rightarrow> string tool_result" where
  "finish r = (case r of Inl err \<Rightarrow> error_result err | Inr t \<Rightarrow> text_result t)"

abbreviation (input) json_fence :: string where
  "json_fence \<equiv> [CHR 0x60, CHR 0x60, CHR 0x60]"

definition raw_json_section :: "js_runtime \<Rightarrow> json \<Rightarrow> string" where
  "raw_json_section rt data =
     ''---'' @ nl @ nl @ ''**Raw JSON Response:**'' @ nl @ json_fence @ ''json'' @ nl
       @ JSON_stringify2 rt data @ nl @ json_fence"

text \<open>
  \<open>if (metadata.k) { formattedText += `${label}${metadata.k}\n\n`; ... }\<close>, where \<open>rest\<close> is
  what the block appends after that line.
\<close>

definition field_line :: "json \<Rightarrow> string \<Rightarrow> string \<Rightarrow> string \<Rightarrow> exn + string" where
  "field_line metadata k label rest =
     (case property metadata k of
        None \<Rightarrow> Inr []
      | Some v \<Rightarrow>
          if truthy v then and_then (js_string v) (\<lambda>t. Inr (label @ t @ nl @ nl @ rest))
          else Inr [])"

text \<open>The lines \<open>`- **${key}:** ${JSON.stringify(value)}`\<close> of the properties not yet shown.\<close>

definition additional_fields :: "js_runtime \<Rightarrow> string list \<Rightarrow> json \<Rightarrow> string list" where
  "additional_fields rt shown data =
     map (\<lambda>(k, v). ''- **'' @ k @ '':** '' @ JSON_stringify rt v)
       (filter (\<lambda>(k, v). k \<notin> set shown) (object_entries data))"

fun join_lines :: "string list \<Rightarrow> string" where
  "join_lines [] = []"
| "join_lines [l] = l"
| "join_lines (l # m # ls) = l @ nl @ join_lines (m # ls)"

definition additional_section :: "string list \<Rightarrow> string" where
  "additional_section additionalFields =
     (if length additionalFields > 0
      then ''**Additional Information:**'' @ nl @ join_lines additionalFields @ nl @ nl
      else [])"

definition original_url_note :: string where
  "original_url_note =
     ''> This is a signed URL that can be used to access the original image. ''
     @ ''The URL includes authentication parameters and may expire.'' @ nl @ nl"

definition ix_metadata_text :: "js_runtime \<Rightarrow> json \<Rightarrow> exn + string" where
  "ix_metadata_text rt data =
     (if is_object data
      then and_then (field_line data ''id'' ''**Image ID:** '' []) (\<lambda>l1.
           and_then (field_line data ''category'' ''**Category:** '' []) (\<lambda>l2.
           and_then (field_line data ''downloadedS3Path'' ''**S3 Path:** '' []) (\<lambda>l3.
           and_then (field_line data ''originalFileUrl'' ''**Original Image URL:** ''
                       original_url_note) (\<lambda>l4.
             Inr (''## Image Metadata'' @ nl @ nl @ l1 @ l2 @ l3 @ l4
                  @ additional_section
                      (additional_fields rt
                         [''id'', ''category'', ''downloadedS3Path'', ''originalFileUrl''] data)
                  @ raw_json_section rt data)))))
      else Inr (JSON_stringify2 rt data))"

definition ix_get_image_metadata ::
  "js_runtime \<Rightarrow> config \<Rightarrow> env \<Rightarrow> api_call list \<Rightarrow> string \<Rightarrow> string tool_result \<times> api_call list" where
  "ix_get_image_metadata rt cfg e log uuid =
     (case logged_call cfg e log (''/api/image/'' @ uuid) GET_init of
        (Rejected err, log1) \<Rightarrow> (error_result err, log1)
      | (Response r, log1) \<Rightarrow>
          (finish (and_then (normalize_response rt ''Failed to get image metadata'' r)
                     (ix_metadata_text rt)), log1))"

text \<open>One size of a category in \<open>list_categories\<close>; an entry that is not an object is skipped.\<close>

definition ix_size_line :: "json \<Rightarrow> exn + string" where
  "ix_size_line sz =
     (if is_object sz
      then and_then (js_string (or_default (property sz ''name'') ''Unknown'')) (\<lambda>sizeName.
           and_then (js_string (or_default (property sz ''width'') ''?'')) (\<lambda>w.
           and_then (js_string (or_default (property sz ''height'') ''?'')) (\<lambda>h.
           and_then (js_string (or_default (property sz ''mimeType'') ''Unknown'')) (\<lambda>mime.
             Inr (''- **'' @ sizeName @ ''**: '' @ w @ times_sign @ h @ '' pixels ('' @ mime @ '')'' @ nl)))))
      else Inr [])"

text \<open>A loop that appends what each element contributes, until one throws.\<close>

fun append_each :: "('a \<Rightarrow> exn + string) \<Rightarrow> 'a list \<Rightarrow> exn + string" where
  "append_each f [] = Inr []"
| "append_each f (x # xs) =
     (case f x of
        Inl err \<Rightarrow> Inl err
      | Inr t \<Rightarrow> (case append_each f xs of Inl err \<Rightarrow> Inl err | Inr ts \<Rightarrow> Inr (t @ ts)))"

text \<open>\<open>Array.isArray(cat.sizes) && cat.sizes.length > 0\<close>: the sizes, when there are some.\<close>

definition some_sizes :: "json \<Rightarrow> json list option" where
  "some_sizes cat =
     (case property cat ''sizes'' of
        Some (JArr szs) \<Rightarrow> if length szs > 0 then Some szs else None
      | _ \<Rightarrow> None)"

definition ix_category_block :: "json \<Rightarrow> exn + string" where
  "ix_category_block cat =
     (if is_object cat
      then and_then (js_string (or_default (property cat ''name'') ''Unknown'')) (\<lambda>catName.
             case some_sizes cat of
               Some szs \<Rightarrow>
                 and_then (append_each ix_size_line szs) (\<lambda>ls.
                   Inr (''### '' @ catName @ nl @ nl @ ''**Available Sizes:**'' @ nl @ nl @ ls @ nl))
             | None \<Rightarrow>
                 Inr (''### '' @ catName @ nl @ nl @ ''No sizes configured for this category.'' @ nl @ nl))
      else Inr [])"

definition ix_categories_text :: "js_runtime \<Rightarrow> json \<Rightarrow> exn + string" where
  "ix_categories_text rt data =
     (case data of
        JArr cats \<Rightarrow>
          and_then
            (if length cats = 0 then Inr (''No categories are currently available.'' @ nl @ nl)
             else and_then (append_each ix_category_block cats) (\<lambda>blocks.
                    Inr (''Found '' @ show_nat (length cats) @ '' categor''
                         @ (if length cats = 1 then ''y'' else ''ies'') @ '':'' @ nl @ nl @ blocks)))
            (\<lambda>listing. Inr (''## Available Image Categories'' @ nl @ nl @ listing
                             @ raw_json_section rt data))
      | _ \<Rightarrow> Inr (JSON_stringify2 rt data))"

definition ix_list_categories ::
  "js_runtime \<Rightarrow> config \<Rightarrow> env \<Rightarrow> api_call list \<Rightarrow> string tool_result \<times> api_call list" where
  "ix_list_categories rt cfg e log =
     (case logged_call cfg e log ''/api/category/list'' GET_init of
        (Rejected err, log1) \<Rightarrow> (error_result err, log1)
      | (Response r, log1) \<Rightarrow>
          (finish (and_then (normalize_response rt ''Failed to list categories'' r)
                     (ix_categories_text rt)), log1))"

text \<open>
  \<open>"url" in responseData && typeof responseData.url === "string" ? responseData.url : null\<close>,
  followed by \<open>if (url)\<close>: a string that is not empty.
\<close>

definition url_string :: "json \<Rightarrow> string option" where
  "url_string data =
     (case property data ''url'' of
        Some (JStr u) \<Rightarrow> if u \<noteq> [] then Some u else None
      | _ \<Rightarrow> None)"

definition ix_resized_text :: "js_runtime \<Rightarrow> string \<Rightarrow> string \<Rightarrow> json \<Rightarrow> string" where
  "ix_resized_text rt uuid sz data =
     (if is_object data
      then (case url_string data of
              Some u \<Rightarrow>
                ''## Resized Image URL'' @ nl @ nl
                @ ''**Image UUID:** '' @ uuid @ nl @ nl
                @ ''**Requested Size:** '' @ sz @ nl @ nl
                @ ''**Download URL:** '' @ u @ nl @ nl
                @ signed_url_note
                @ additional_section (additional_fields rt [''url''] data)
                @ raw_json_section rt data
            | None \<Rightarrow>
                ''## Resized Image URL'' @ nl @ nl @ ''**Warning:** No URL found in the response.''
                @ nl @ nl @ ''**Image UUID:** '' @ uuid @ nl @ ''**Requested Size:** '' @ sz
                @ nl @ nl @ ''**Response Data:**'' @ nl @ json_fence @ ''json'' @ nl
                @ JSON_stringify2 rt data @ nl @ json_fence)
      else JSON_stringify2 rt data)"

definition ix_get_resized_image ::
  "js_runtime \<Rightarrow> config \<Rightarrow> env \<Rightarrow> api_call list \<Rightarrow> string \<Rightarrow> string
     \<Rightarrow> string tool_result \<times> api_call list" where
  "ix_get_resized_image rt cfg e log uuid sz =
     (case logged_call cfg e log (''/api/image/s/'' @ uuid @ ''/'' @ sz) GET_init of
        (Rejected err, log1) \<Rightarrow> (error_result err, log1)
      | (Response r, log1) \<Rightarrow>
          (finish (and_then (normalize_response rt ''Failed to get resized image URL'' r)
                     (\<lambda>data. Inr (ix_resized_text rt uuid sz data))), log1))"

text \<open>
  The two upload handlers of this variant are the same text but for the literal
  \<open>true\<close> or \<open>false\<close> in the path; \<open>ix_upload\<close> is that text with the literal as a
  parameter, and the handlers instantiate it.
\<close>

definition ix_upload ::
  "string \<Rightarrow> js_runtime \<Rightarrow> config \<Rightarrow> env \<Rightarrow> api_call list \<Rightarrow> string \<Rightarrow> string
     \<Rightarrow> string tool_result \<times> api_call list" where
  "ix_upload literal rt cfg e log cat filename =
     (case readFile e filename of
        Inl err \<Rightarrow> (error_result err, log)
      | Inr fileBuffer \<Rightarrow>
          (case logged_call cfg e log (''/api/image/'' @ cat @ ''?forceImmediateResize='' @ literal)
                  (POST_init (Some (upload_form fileBuffer filename))) of
             (Rejected err, log1) \<Rightarrow> (error_result err, log1)
           | (Response r, log1) \<Rightarrow>
               (finish (and_then (normalize_response rt ''Failed to upload image'' r)
                          (\<lambda>data. Inr (JSON_stringify2 rt data))), log1)))"

definition ix_upload_and_resize_image ::
  "js_runtime \<Rightarrow> config \<Rightarrow> env \<Rightarrow> api_call list \<Rightarrow> string \<Rightarrow> string
     \<Rightarrow> string tool_result \<times> api_call list" where
  "ix_upload_and_resize_image = ix_upload ''true''"

definition ix_upload_image ::
  "js_runtime \<Rightarrow> config \<Rightarrow> env \<Rightarrow> api_call list \<Rightarrow> string \<Rightarrow> string
     \<Rightarrow> string tool_result \<times> api_call list" where
  "ix_upload_image = ix_upload ''false''"

section \<open>The server without cache or normalizer (\<open>src/unnamed/part_001\<close>)\<close>

text \<open>
  This variant throws \<open>`${failure}: ${response.status} ${errorText}`\<close> on a failed
  response and otherwise reads the body with \<open>response.json()\<close>, whose \<open>SyntaxError\<close>
  it lets reach the \<open>catch\<close>. Its definitions carry the prefix \<open>p1_\<close>.
\<close>

definition p1_read :: "js_runtime \<Rightarrow> string \<Rightarrow> response \<Rightarrow> exn + json" where
  "p1_read rt failure r =
     (if \<not> response_ok r
      then Inl (failure @ '': '' @ show_nat (status r) @ '' '' @ responseText r)
      else JSON_parse rt (responseText r))"

definition p1_get_image_metadata ::
  "js_runtime \<Rightarrow> config \<Rightarrow> env \<Rightarrow> api_call list \<Rightarrow> string \<Rightarrow> string tool_result \<times> api_call list" where
  "p1_get_image_metadata rt cfg e log uuid =
     (case logged_call cfg e log (''/api/image/'' @ uuid) GET_init of
        (Rejected err, log1) \<Rightarrow> (error_result err, log1)
      | (Response r, log1) \<Rightarrow>
          (finish (and_then (p1_read rt ''Failed to get image metadata'' r)
                     (\<lambda>data. Inr (JSON_stringify2 rt data))), log1))"

text \<open>
  \<open>get_resized_image\<close> of this variant returns \<open>text: url || JSON.stringify(data, null, 2)\<close>
  where \<open>url\<close> is whatever the property \<open>url\<close> of the data holds (\<open>null\<close> without one), so
  the text of its block is a value: \<open>JStr t\<close> when it is the string \<open>t\<close>.
\<close>

definition error_value :: "exn \<Rightarrow> json tool_result" where
  "error_value msg =
     \<lparr>content = [\<lparr>blockType = ''text'', blockText = JStr (''Error: '' @ msg)\<rparr>],
      isError = Some True\<rparr>"

definition p1_get_resized_image ::
  "js_runtime \<Rightarrow> config \<Rightarrow> env \<Rightarrow> api_call list \<Rightarrow> string \<Rightarrow> string
     \<Rightarrow> json tool_result \<times> api_call list" where
  "p1_get_resized_image rt cfg e log uuid sz =
     (case logged_call cfg e log (''/api/image/s/'' @ uuid @ ''/'' @ sz) GET_init of
        (Rejected err, log1) \<Rightarrow> (error_value err, log1)
      | (Response r, log1) \<Rightarrow>
          (case p1_read rt ''Failed to get resized image URL'' r of
             Inl err \<Rightarrow> (error_value err, log1)
           | Inr data \<Rightarrow>
               (case (if is_object data then property data ''url'' else None) of
                  Some u \<Rightarrow>
                    if truthy u then (text_result u, log1)
                    else (text_result (JStr (JSON_stringify2 rt data)), log1)
                | None \<Rightarrow> (text_result (JStr (JSON_stringify2 rt data)), log1))))"

text \<open>As in the other variant, the two upload handlers differ in the literal only.\<close>

definition p1_upload ::
  "string \<Rightarrow> js_runtime \<Rightarrow> config \<Rightarrow> env \<Rightarrow> api_call list \<Rightarrow> string \<Rightarrow> string
     \<Rightarrow> string tool_result \<times> api_call list" where
  "p1_upload literal rt cfg e log cat filename =
     (case readFile e filename of
        Inl err \<Rightarrow> (error_result err, log)
      | Inr fileBuffer \<Rightarrow>
          (case logged_call cfg e log (''/api/image/'' @ cat @ ''?forceImmediateResize='' @ literal)
                  (POST_init (Some (upload_form fileBuffer filename))) of
             (Rejected err, log1) \<Rightarrow> (error_result err, log1)
           | (Response r, log1) \<Rightarrow>
               (finish (and_then (p1_read rt ''Failed to upload image'' r)
                          (\<lambda>data. Inr (JSON_stringify2 rt data))), log1)))"

definition p1_upload_and_resize_image ::
  "js_runtime \<Rightarrow> config \<Rightarrow> env \<Rightarrow> api_call list \<Rightarrow> string \<Rightarrow> string
     \<Rightarrow> string tool_result \<times> api_call list" where
  "p1_upload_and_resize_image = p1_upload ''true''"

definition p1_upload_image ::
  "js_runtime \<Rightarrow> config \<Rightarrow> env \<Rightarrow> api_call list \<Rightarrow> string \<Rightarrow> string
     \<Rightarrow> string tool_result \<times> api_call list" where
  "p1_upload_image = p1_upload ''false''"

section \<open>What the properties speak of, and the inputs they are evaluated at\<close>

subsection \<open>Runs of the cache\<close>

text \<open>A sequence of \<open>getSizeCache\<close> calls, each with what it sees of the world.\<close>

primrec run_gets :: "typed_json \<Rightarrow> config \<Rightarrow> env list \<Rightarrow> cache_state \<Rightarrow> cache_state" where
  "run_gets rt cfg [] s = s"
| "run_gets rt cfg (e # es) s = run_gets rt cfg es (snd (getSizeCache rt cfg e s))"

text \<open>
  Each call of the sequence starts no more than five minutes after the access time the
  call before it recorded (\<open>t\<close> for the first).
\<close>

fun within_window :: "int \<Rightarrow> env list \<Rightarrow> bool" where
  "within_window t [] = True"
| "within_window t (e # es) =
     (now_entry e - t \<le> fiveMinutesInMs \<and> within_window (now_exit e) es)"

text \<open>
  The clock of a running system reads a time after the epoch: \<open>Date.now()\<close> is positive.
  (A reading of \<open>0\<close> would be a falsy timestamp.)
\<close>

definition clock_after_epoch :: "env \<Rightarrow> bool" where
  "clock_after_epoch e = (0 < now_entry e \<and> 0 < now_refreshed e \<and> 0 < now_exit e)"


text \<open>
  A refresh attempt fails: the fetch rejects, the status is outside 2xx, or the body
  does not parse.
\<close>

definition refresh_failed :: "typed_json \<Rightarrow> config \<Rightarrow> env \<Rightarrow> bool" where
  "refresh_failed rt cfg e =
     (case makeApiCall cfg e ''/api/size/list'' GET_init of
        Rejected err \<Rightarrow> True
      | Response r \<Rightarrow> \<not> response_ok r \<or> isl (json_categories rt (responseText r)))"

definition local_cfg :: config where
  "local_cfg = \<lparr>baseUrl = ''http://localhost:3020'', apiKey = ''secret''\<rparr>"

definition thumb :: CategorySize where
  "thumb = \<lparr>CategorySize.name = ''thumb'', width = js_int 100, height = js_int 100, mimeType = ''image/png''\<rparr>"

definition thumb_wide :: CategorySize where
  "thumb_wide = \<lparr>CategorySize.name = ''thumb'', width = js_int 320, height = js_int 90, mimeType = ''image/jpeg''\<rparr>"

definition large :: CategorySize where
  "large = \<lparr>CategorySize.name = ''large'', width = js_int 1200, height = js_int 800, mimeType = ''image/jpeg''\<rparr>"

definition two_categories :: categories where
  "two_categories = [Some \<lparr>Category.name = ''avatars'', sizes = [thumb, large]\<rparr>,
                     Some \<lparr>Category.name = ''banners'', sizes = [thumb_wide]\<rparr>]"


text \<open>A category with a size named \<open>__proto__\<close> between two others.\<close>

definition proto_size :: CategorySize where
  "proto_size =
     \<lparr>CategorySize.name = ''__proto__'', width = js_int 64, height = js_int 64,
      mimeType = ''image/png''\<rparr>"

definition proto_categories :: categories where
  "proto_categories = [Some \<lparr>Category.name = ''icons'', sizes = [thumb, proto_size, large]\<rparr>]"

text \<open>A runtime whose parser reads every body as the given category list.\<close>

definition reads_as :: "categories \<Rightarrow> typed_json" where
  "reads_as cats =
     \<lparr>json_categories = (\<lambda>b. Inr cats),
      json_metadata = (\<lambda>b. Inl ''Unexpected token''),
      json_url = (\<lambda>b. Inl ''Unexpected token''),
      stringify_metadata = (\<lambda>m. ''{}''),
      stringify2_url = (\<lambda>u. ''{}'')\<rparr>"


definition plain_response :: "nat \<Rightarrow> string \<Rightarrow> response" where
  "plain_response st b = \<lparr>status = st, statusText = [], contentType = None, responseText = b\<rparr>"

text \<open>The network is down: every fetch rejects. The clock reads \<open>t\<close> throughout.\<close>

definition offline_env :: "int \<Rightarrow> env" where
  "offline_env t = \<lparr>fetch = (\<lambda>q. Rejected ''fetch failed''), readFile = (\<lambda>f. Inl ''ENOENT''),
     now_entry = t, now_refreshed = t, now_exit = t\<rparr>"

text \<open>The service answers every request with the given status and body.\<close>

definition answering_env :: "nat \<Rightarrow> string \<Rightarrow> int \<Rightarrow> env" where
  "answering_env st b t =
     \<lparr>fetch = (\<lambda>q. Response (plain_response st b)), readFile = (\<lambda>f. Inl ''ENOENT''),
      now_entry = t, now_refreshed = t, now_exit = t\<rparr>"

definition online_env :: "int \<Rightarrow> env" where
  "online_env t = answering_env 200 ''(category list)'' t"

text \<open>The cache after one successful \<open>getSizeCache\<close> at time 1000.\<close>

definition populated_state :: cache_state where
  "populated_state =
     snd (getSizeCache (reads_as two_categories) local_cfg (online_env 1000) initial_state)"

subsection \<open>Inputs for the normalizer, and what its properties speak of\<close>

text \<open>
  The pattern occurs in the text right after \<open>b\<close>, and nowhere before: \<open>b\<close> is what
  stands before the first occurrence.
\<close>

definition first_at :: "string \<Rightarrow> string \<Rightarrow> string \<Rightarrow> bool" where
  "first_at pat b s =
     ((\<exists>a. s = b @ pat @ a) \<and> (\<forall>b' a'. s = b' @ pat @ a' \<longrightarrow> length b \<le> length b'))"

text \<open>
  What the handler is to make of the content of a \<open><pre>\<close> block, said without the
  functions that compute it. A \<open><br>\<close> tag is \<open><br\<close>, any whitespace, an optional slash
  and \<open>>\<close>.
\<close>

definition br_tag :: "string \<Rightarrow> bool" where
  "br_tag t =
     (\<exists>ws. list_all js_space ws \<and> (t = ''<br'' @ ws @ ''>'' \<or> t = ''<br'' @ ws @ ''/>''))"

text \<open>A text of the kind \<open>tag\<close> stands in \<open>s\<close> right after \<open>b\<close>.\<close>

definition occurs_at :: "(string \<Rightarrow> bool) \<Rightarrow> string \<Rightarrow> string \<Rightarrow> bool" where
  "occurs_at tag b s = (\<exists>t a. tag t \<and> s = b @ t @ a)"

text \<open>
  \<open>out\<close> is \<open>s\<close> with every text of the kind \<open>tag\<close> replaced by \<open>rep\<close>, from left to
  right: a text without such an occurrence stays as it is; otherwise what stands before
  the first occurrence stays, the occurrence becomes \<open>rep\<close>, and the replacement goes on
  in what follows it.
\<close>

inductive replaced :: "(string \<Rightarrow> bool) \<Rightarrow> string \<Rightarrow> string \<Rightarrow> string \<Rightarrow> bool"
  for tag :: "string \<Rightarrow> bool" and rep :: string where
  no_match: "(\<forall>b. \<not> occurs_at tag b s) \<Longrightarrow> replaced tag rep s s"
| first_match:
    "tag t \<Longrightarrow> (\<forall>b'. occurs_at tag b' (b @ t @ a) \<longrightarrow> length b \<le> length b') \<Longrightarrow>
     replaced tag rep a out \<Longrightarrow> replaced tag rep (b @ t @ a) (b @ rep @ out)"

text \<open>
  \<open>m\<close> is \<open>s\<close> without the whitespace at its two ends: only whitespace stands around
  it, and it neither begins nor ends with whitespace.
\<close>

definition trimmed :: "string \<Rightarrow> string \<Rightarrow> bool" where
  "trimmed s m =
     (\<exists>l r. s = l @ m @ r \<and> list_all js_space l \<and> list_all js_space r \<and>
            (m = [] \<or> (\<not> js_space (hd m) \<and> \<not> js_space (last m))))"

text \<open>
  \<open>m\<close> is the content \<open>inner\<close> of the block with its \<open><br>\<close> tags replaced by newlines,
  then \<open>&nbsp;\<close> decoded to a space, then \<open>&#39;\<close> decoded to an apostrophe, and
  whitespace trimmed.
\<close>

definition decoded_block :: "string \<Rightarrow> string \<Rightarrow> bool" where
  "decoded_block inner m =
     (\<exists>s1 s2 s3. replaced br_tag nl inner s1 \<and>
                 replaced (\<lambda>t. t = ''&nbsp;'') '' '' s1 s2 \<and>
                 replaced (\<lambda>t. t = ''&#39;'') [CHR 0x27] s2 s3 \<and>
                 trimmed s3 m)"

text \<open>A result as the \<open>catch\<close> block builds it: one text block that begins \<open>Error: \<close>, flagged.\<close>

definition is_error_result :: "string tool_result \<Rightarrow> bool" where
  "is_error_result res =
     ((case content res of
         [b] \<Rightarrow> blockType b = ''text'' \<and> prefix ''Error: '' (blockText b)
       | _ \<Rightarrow> False)
      \<and> isError res = Some True)"

text \<open>The body \<open>{"error":"not found"}\<close>.\<close>

definition not_found_body :: string where
  "not_found_body = ''{\"error\":\"not found\"}''"

text \<open>
  A printer in the manner of \<open>JSON.stringify\<close>, with the indentation of two spaces
  (\<open>pretty\<close>) and without whitespace (\<open>compact\<close>), for the runtime the examples use.
\<close>

definition hex_digit :: "nat \<Rightarrow> char" where
  "hex_digit d = ''0123456789abcdef'' ! d"

definition escape_char :: "char \<Rightarrow> string" where
  "escape_char c =
     (if c = CHR 0x22 then [CHR 0x5C, CHR 0x22]
      else if c = CHR 0x5C then [CHR 0x5C, CHR 0x5C]
      else if c = CHR 0x08 then [CHR 0x5C, CHR ''b'']
      else if c = CHR 0x0C then [CHR 0x5C, CHR ''f'']
      else if c = CHR 0x0A then [CHR 0x5C, CHR ''n'']
      else if c = CHR 0x0D then [CHR 0x5C, CHR ''r'']
      else if c = CHR 0x09 then [CHR 0x5C, CHR ''t'']
      else if of_char c < (32 :: nat)
      then [CHR 0x5C, CHR ''u'', CHR ''0'', CHR ''0'', hex_digit (of_char c div 16), hex_digit (of_char c mod 16)]
      else [c])"

definition quote_str :: "string \<Rightarrow> string" where
  "quote_str s = CHR 0x22 # concat (map escape_char s) @ [CHR 0x22]"

fun join_str :: "string \<Rightarrow> string list \<Rightarrow> string" where
  "join_str sep [] = []"
| "join_str sep [p] = p"
| "join_str sep (p # q # ps) = p @ sep @ join_str sep (q # ps)"

fun pretty :: "nat \<Rightarrow> json \<Rightarrow> string" where
  "pretty n JNull = ''null''"
| "pretty n (JBool b) = (if b then ''true'' else ''false'')"
| "pretty n (JNum i) = printed i"
| "pretty n (JStr s) = quote_str s"
| "pretty n (JArr xs) =
     (if xs = [] then ''[]''
      else ''['' @ nl
           @ join_str ('','' @ nl) (map (\<lambda>x. replicate (2 * Suc n) (CHR '' '') @ pretty (Suc n) x) xs)
           @ nl @ replicate (2 * n) (CHR '' '') @ '']'')"
| "pretty n (JObj kvs) =
     (if kvs = [] then ''{}''
      else ''{'' @ nl
           @ join_str ('','' @ nl)
               (map (\<lambda>kv. replicate (2 * Suc n) (CHR '' '') @ quote_str (fst kv) @ '': ''
                          @ pretty (Suc n) (snd kv)) kvs)
           @ nl @ replicate (2 * n) (CHR '' '') @ ''}'')"

fun compact :: "json \<Rightarrow> string" where
  "compact JNull = ''null''"
| "compact (JBool b) = (if b then ''true'' else ''false'')"
| "compact (JNum i) = printed i"
| "compact (JStr s) = quote_str s"
| "compact (JArr xs) = ''['' @ join_str '','' (map compact xs) @ '']''"
| "compact (JObj kvs) =
     ''{'' @ join_str '','' (map (\<lambda>kv. quote_str (fst kv) @ '':'' @ compact (snd kv)) kvs) @ ''}''"

text \<open>
  A runtime fixed on the bodies used below: the parser reads the body above as the object
  with the one property \<open>error\<close>, and rejects every other body (the others used below are
  not JSON).
\<close>

definition sample_runtime :: js_runtime where
  "sample_runtime =
     \<lparr>JSON_parse = (\<lambda>b. if b = not_found_body then Inr (JObj [(''error'', JStr ''not found'')])
                         else Inl ''Unexpected token''),
      JSON_stringify = compact,
      JSON_stringify2 = pretty 0\<rparr>"

definition not_found_response :: response where
  "not_found_response =
     \<lparr>status = 404, statusText = ''Not Found'', contentType = Some ''application/json'',
      responseText = not_found_body\<rparr>"

definition html_error_body :: string where
  "html_error_body = ''<html><pre>Internal Error</pre></html>''"

definition html_error_response :: "string \<Rightarrow> response" where
  "html_error_response ct =
     \<lparr>status = 500, statusText = ''Internal Server Error'', contentType = Some ct,
      responseText = html_error_body\<rparr>"

text \<open>
  An error page whose block has whitespace at both ends, the tag in two spellings and
  both entities; and what is to be made of it.
\<close>

definition markup_inner :: string where
  "markup_inner = '' disk full<br>it&#39;s over<br />retry&nbsp;later  ''"

definition markup_message :: string where
  "markup_message = ''disk full'' @ nl @ ''it'' @ [CHR 0x27] @ ''s over'' @ nl @ ''retry later''"

definition html_markup_response :: response where
  "html_markup_response =
     \<lparr>status = 502, statusText = ''Bad Gateway'', contentType = Some ''text/html; charset=utf-8'',
      responseText = ''<html><body>'' @ ''<pre>'' @ markup_inner @ ''</pre>'' @ ''</body></html>''\<rparr>"

subsection \<open>Inputs for the handlers\<close>

text \<open>
  The service answers every request with the given status and body, and the disk holds
  the one file \<open>/tmp/cat.png\<close>.
\<close>

definition disk_env :: "nat \<Rightarrow> string \<Rightarrow> env" where
  "disk_env st b =
     \<lparr>fetch = (\<lambda>q. Response (plain_response st b)),
      readFile = (\<lambda>f. if f = ''/tmp/cat.png'' then Inr [137, 80, 78, 71]
                      else Inl ''ENOENT: no such file or directory''),
      now_entry = 1000, now_refreshed = 1000, now_exit = 1000\<rparr>"

text \<open>The call of the wrapper an upload makes: the path with its query, and \<open>POST\<close> with the form.\<close>

definition upload_call :: "string \<Rightarrow> string \<Rightarrow> bytes \<Rightarrow> string \<Rightarrow> api_call" where
  "upload_call cat literal fileBuffer filename =
     (''/api/image/'' @ cat @ ''?forceImmediateResize='' @ literal,
      POST_init (Some (upload_form fileBuffer filename)))"

text \<open>A body of 250 characters that is not JSON.\<close>

definition long_body :: string where
  "long_body = replicate 250 (CHR ''x'')"

definition sample_metadata :: ImageMetadata where
  "sample_metadata =
     \<lparr>id' = ''42'', category = ''avatars'', downloadedS3Path = None, originalS3Path = None,
      resizedFiles = Some [\<lparr>size' = ''thumb'', s3Path = ''avatars/42/thumb.png''\<rparr>]\<rparr>"

definition upload_runtime :: typed_json where
  "upload_runtime =
     \<lparr>json_categories = (\<lambda>b. Inr two_categories),
      json_metadata = (\<lambda>b. Inr sample_metadata),
      json_url = (\<lambda>b. Inl ''Unexpected token''),
      stringify_metadata = (\<lambda>m. ''{}''),
      stringify2_url = (\<lambda>u. ''{}'')\<rparr>"

subsection \<open>Inputs for the category listing, and failure modes\<close>

text \<open>The JSON of a size and of a category, as the service sends them.\<close>

definition json_of_size :: "CategorySize \<Rightarrow> json" where
  "json_of_size sz =
     JObj [(''name'', JStr (CategorySize.name sz)), (''width'', JNum (width sz)),
           (''height'', JNum (height sz)), (''mimeType'', JStr (mimeType sz))]"

definition json_of_category :: "Category \<Rightarrow> json" where
  "json_of_category c =
     JObj [(''name'', JStr (Category.name c)), (''sizes'', JArr (map json_of_size (sizes c)))]"

text \<open>The line that announces the number of categories, in both listings.\<close>

definition found_line :: "nat \<Rightarrow> string" where
  "found_line n = ''Found '' @ show_nat n @ '' categor'' @ (if n = 1 then ''y'' else ''ies'') @ '':'' @ nl @ nl"

text \<open>What the handler with the cache prints for the answer with two categories.\<close>

definition first_category_text :: string where
  "first_category_text =
     ''Found 2 categories:'' @ nl @ nl
     @ ''### avatars'' @ nl @ nl
     @ ''**Available Sizes:**'' @ nl @ nl
     @ ''- **thumb**: 100'' @ times_sign @ ''100 pixels (image/png)'' @ nl
     @ ''- **large**: 1200'' @ times_sign @ ''800 pixels (image/jpeg)'' @ nl
     @ nl"

text \<open>
  The failure modes of a request: the fetch rejects, the status is outside 2xx, or the
  status is a success and the body does not parse. An upload fails, besides, when the
  file cannot be read.
\<close>

definition failed_outcome :: "(string \<Rightarrow> bool) \<Rightarrow> fetch_outcome \<Rightarrow> bool" where
  "failed_outcome unparsable outcome =
     (case outcome of
        Rejected err \<Rightarrow> True
      | Response r \<Rightarrow> \<not> response_ok r \<or> unparsable (responseText r))"

definition failed_upload ::
  "(string \<Rightarrow> bool) \<Rightarrow> config \<Rightarrow> env \<Rightarrow> string \<Rightarrow> string \<Rightarrow> string \<Rightarrow> bool" where
  "failed_upload unparsable cfg e cat literal filename =
     (case readFile e filename of
        Inl err \<Rightarrow> True
      | Inr fileBuffer \<Rightarrow>
          failed_outcome unparsable
            (makeApiCall cfg e (''/api/image/'' @ cat @ ''?forceImmediateResize='' @ literal)
               (POST_init (Some (upload_form fileBuffer filename)))))"

text \<open>
  The text \<open>buildImageMetadataResponseText\<close> builds when the lines of the sizes are read
  from the given cache.
\<close>

definition metadata_text :: "size_table option \<Rightarrow> ImageMetadata \<Rightarrow> string \<Rightarrow> string" where
  "metadata_text cache metadata label =
     ''## '' @ label @ nl @ nl
     @ ''**Image ID:** '' @ id' metadata @ nl @ nl
     @ ''**Category:** '' @ category metadata @ nl @ nl
     @ (case resizedFiles metadata of
          None \<Rightarrow> ''*Note: No resized files available for this image.*'' @ nl @ nl
        | Some fs \<Rightarrow>
            if fs = [] then ''*Note: No resized files available for this image.*'' @ nl @ nl
            else ''**Available Sizes:**'' @ nl @ nl @ concat (map (resized_line cache) fs) @ nl)"

text \<open>
  The service answers every request with status 200 and the body \<open>{}\<close>, but for the
  list of sizes: that request is rejected. The disk holds the one file \<open>/tmp/cat.png\<close>.
\<close>

definition refresh_down_env :: env where
  "refresh_down_env =
     \<lparr>fetch = (\<lambda>q. if url q = ''http://localhost:3020/api/size/list'' then Rejected ''fetch failed''
                    else Response (plain_response 200 ''{}'')),
      readFile = (\<lambda>f. if f = ''/tmp/cat.png'' then Inr [137, 80, 78, 71]
                      else Inl ''ENOENT: no such file or directory''),
      now_entry = 1000, now_refreshed = 1000, now_exit = 1000\<rparr>"

text \<open>What a handler of the variant with the cache prints for the sample metadata with no cache.\<close>

definition unsized_text :: "string \<Rightarrow> string" where
  "unsized_text label =
     ''## '' @ label @ nl @ nl
     @ ''**Image ID:** 42'' @ nl @ nl
     @ ''**Category:** avatars'' @ nl @ nl
     @ ''**Available Sizes:**'' @ nl @ nl
     @ ''- **thumb**'' @ nl @ nl"

definition is_error_value :: "json tool_result \<Rightarrow> bool" where
  "is_error_value res =
     ((case content res of
         [b] \<Rightarrow> blockType b = ''text'' \<and> (case blockText b of JStr t \<Rightarrow> prefix ''Error: '' t | _ \<Rightarrow> False)
       | _ \<Rightarrow> False)
      \<and> isError res = Some True)"

section \<open>Properties of the size cache\<close>

lemma getCategories_calls:
  "calls (snd (getCategories rt cfg e s)) = calls s @ [size_list_call]"
  by (simp add: getCategories_def p0_call_def split: fetch_outcome.splits sum.splits)

lemma getSizeCache_calls:
  "calls (snd (getSizeCache rt cfg e s)) =
     calls s @ (if needs_reload s (now_entry e) then [size_list_call] else [])"
  by (simp add: getSizeCache_def Let_def getCategories_calls)

lemma getSizeCache_fresh:
  "\<not> needs_reload s (now_entry e) \<Longrightarrow>
     getSizeCache rt cfg e s = (sizeCache s, s\<lparr>lastAccessedAt := Some (now_exit e)\<rparr>)"
  by (simp add: getSizeCache_def Let_def)

lemma getCategories_failed:
  "refresh_failed rt cfg e \<Longrightarrow>
     getCategories rt cfg e s = (None, s\<lparr>calls := calls s @ [size_list_call]\<rparr>)"
  by (auto simp add: getCategories_def refresh_failed_def p0_call_def size_list_call_def
      split: fetch_outcome.splits sum.splits)

lemma getCategories_ok:
  "makeApiCall cfg e ''/api/size/list'' GET_init = Response r \<Longrightarrow> response_ok r \<Longrightarrow>
   json_categories rt (responseText r) = Inr cats \<Longrightarrow>
     getCategories rt cfg e s =
       (Some cats, s\<lparr>calls := calls s @ [size_list_call],
                     sizeCache := Some (add_categories cats empty_table),
                     lastUpdatedAt := Some (now_refreshed e)\<rparr>)"
  by (simp add: getCategories_def p0_call_def size_list_call_def)

lemma populated_state_eq:
  "populated_state =
     \<lparr>sizeCache = Some (add_categories two_categories empty_table), lastUpdatedAt = Some 1000,
      lastAccessedAt = Some 1000, calls = [size_list_call]\<rparr>"
  by (simp add: populated_state_def getSizeCache_def getCategories_def p0_call_def needs_reload_def
      initial_state_def online_env_def answering_env_def makeApiCall_def reads_as_def
      plain_response_def response_ok_def Let_def)

text \<open>
  C1 (as amended). \<open>getSizeCache\<close> makes at most one call of the wrapper, the refresh
  \<open>GET /api/size/list\<close>, and it makes it exactly when the cache mapping is absent (no
  refresh has succeeded so far), or no access time is recorded (none yet, or the reading
  \<open>0\<close>), or more than 300000 ms have passed since the recorded access time. So a second
  \<open>getSizeCache\<close> that starts within five minutes of the access time the first one
  recorded makes no refresh, provided the first one left the cache populated (and read a
  clock that is not \<open>0\<close>); and a call with the mapping absent always attempts a refresh,
  whatever the timestamps.
\<close>

theorem getSizeCache_reload_policy:
  "(calls (snd (getSizeCache rt cfg e s)) = calls s @ [size_list_call] \<or>
    calls (snd (getSizeCache rt cfg e s)) = calls s) \<and>
   (calls (snd (getSizeCache rt cfg e s)) \<noteq> calls s \<longleftrightarrow>
      sizeCache s = None \<or> lastAccessedAt s = None \<or> lastAccessedAt s = Some 0 \<or>
      (\<exists>t. lastAccessedAt s = Some t \<and> now_entry e - t > 300000)) \<and>
   (sizeCache (snd (getSizeCache rt cfg e s)) \<noteq> None \<and> now_exit e \<noteq> 0 \<and>
    now_entry e' - now_exit e \<le> 300000 \<longrightarrow>
      calls (snd (getSizeCache rt' cfg' e' (snd (getSizeCache rt cfg e s))))
        = calls (snd (getSizeCache rt cfg e s))) \<and>
   (sizeCache s = None \<longrightarrow> calls (snd (getSizeCache rt cfg e s)) = calls s @ [size_list_call])"
proof -
  let ?s' = "snd (getSizeCache rt cfg e s)"
  have acc: "lastAccessedAt ?s' = Some (now_exit e)"
    by (simp add: getSizeCache_def Let_def)
  have a: "calls ?s' = calls s @ [size_list_call] \<or> calls ?s' = calls s"
    by (simp add: getSizeCache_calls)
  have b: "calls ?s' \<noteq> calls s \<longleftrightarrow>
      sizeCache s = None \<or> lastAccessedAt s = None \<or> lastAccessedAt s = Some 0 \<or>
      (\<exists>t. lastAccessedAt s = Some t \<and> now_entry e - t > 300000)"
    by (auto simp add: getSizeCache_calls needs_reload_def fiveMinutesInMs_def split: option.splits)
  have c: "calls (snd (getSizeCache rt' cfg' e' ?s')) = calls ?s'"
    if "sizeCache ?s' \<noteq> None" "now_exit e \<noteq> 0" "now_entry e' - now_exit e \<le> 300000"
  proof -
    have "\<not> needs_reload ?s' (now_entry e')"
      using that acc by (simp add: needs_reload_def fiveMinutesInMs_def)
    then show ?thesis by (simp add: getSizeCache_calls)
  qed
  have d: "sizeCache s = None \<longrightarrow> calls ?s' = calls s @ [size_list_call]"
    by (simp add: getSizeCache_calls needs_reload_def)
  from a b c d show ?thesis by blast
qed

text \<open>
  The policy at work: a first call on the empty cache refreshes, and a second call one
  second later does not.
\<close>

theorem getSizeCache_reload_policy_witness:
  "sizeCache (snd (getSizeCache (reads_as two_categories) local_cfg (online_env 1000) initial_state)) \<noteq> None \<and>
   now_exit (online_env 1000) \<noteq> 0 \<and>
   now_entry (online_env 2000) - now_exit (online_env 1000) \<le> 300000 \<and>
   sizeCache initial_state = None \<and>
   calls (snd (getSizeCache (reads_as two_categories) local_cfg (online_env 1000) initial_state))
     = [size_list_call] \<and>
   calls (snd (getSizeCache (reads_as two_categories) local_cfg (online_env 2000)
      (snd (getSizeCache (reads_as two_categories) local_cfg (online_env 1000) initial_state))))
     = [size_list_call]"
  using getSizeCache_reload_policy [of "reads_as two_categories" local_cfg "online_env 1000"
      initial_state "online_env 2000" "reads_as two_categories" local_cfg]
  by (simp add: getSizeCache_def getCategories_def p0_call_def needs_reload_def initial_state_def
      online_env_def answering_env_def makeApiCall_def reads_as_def plain_response_def
      response_ok_def fiveMinutesInMs_def Let_def)

text \<open>
  Two calls one second apart, with the network down: the first refresh fails, the cache
  stays absent, and the second call attempts a refresh again. Two calls within five
  minutes of each other have triggered two refreshes.
\<close>

theorem two_gets_two_refreshes:
  "now_entry (offline_env 2000) - now_exit (offline_env 1000) \<le> fiveMinutesInMs \<and>
   calls (snd (getSizeCache (reads_as []) local_cfg (offline_env 2000)
            (snd (getSizeCache (reads_as []) local_cfg (offline_env 1000) initial_state))))
     = [size_list_call, size_list_call]"
  by (simp add: getSizeCache_def getCategories_def p0_call_def needs_reload_def initial_state_def
      offline_env_def makeApiCall_def fiveMinutesInMs_def Let_def)














lemma show_int_64: "show_int 64 = ''64''" by code_simp

lemma show_int_100: "show_int 100 = ''100''" by code_simp

text \<open>
  What the size lines read from the cache built from the answer with a size named
  \<open>__proto__\<close>: the entry of \<open>thumb\<close>; under \<open>__proto__\<close> the prototype, which is
  that size; under \<open>width\<close> the width of the prototype and under \<open>toString\<close> the
  inherited method, neither of which is a size; and nothing under \<open>small\<close>.
\<close>

lemma proto_size_answers_lookups:
  "map (resized_line (sizeCache (snd (getCategories (reads_as proto_categories) local_cfg
          (online_env 1000) initial_state))))
     [\<lparr>size' = ''thumb'', s3Path = []\<rparr>, \<lparr>size' = ''__proto__'', s3Path = []\<rparr>,
      \<lparr>size' = ''width'', s3Path = []\<rparr>, \<lparr>size' = ''toString'', s3Path = []\<rparr>,
      \<lparr>size' = ''small'', s3Path = []\<rparr>]
   = [''- **thumb**: 100'' @ times_sign @ ''100 pixels'' @ nl,
      ''- **__proto__**: 64'' @ times_sign @ ''64 pixels'' @ nl,
      ''- **width**: undefined'' @ times_sign @ ''undefined pixels'' @ nl,
      ''- **toString**: undefined'' @ times_sign @ ''undefined pixels'' @ nl,
      ''- **small**'' @ nl]"
  by (simp add: getCategories_def p0_call_def initial_state_def online_env_def answering_env_def
      makeApiCall_def reads_as_def plain_response_def response_ok_def proto_categories_def
      empty_table_def cache_get_def object_prototype_methods_def resized_line_def
      thumb_def large_def proto_size_def js_int_def show_int_64 show_int_100)

text \<open>
  C3. A refresh attempt that fails (the fetch rejects, or the status is outside 2xx; also
  a body that does not parse) leaves the cache mapping and \<open>lastUpdatedAt\<close> as they
  were: \<open>getCategories\<close> returns \<open>null\<close>, and \<open>getSizeCache\<close> returns the mapping it had
  before the attempt, as a value and not as an error.
\<close>

theorem failed_refresh_keeps_cache:
  assumes "refresh_failed rt cfg e"
  shows "fst (getCategories rt cfg e s) = None \<and>
         sizeCache (snd (getCategories rt cfg e s)) = sizeCache s \<and>
         lastUpdatedAt (snd (getCategories rt cfg e s)) = lastUpdatedAt s \<and>
         fst (getSizeCache rt cfg e s) = sizeCache s \<and>
         sizeCache (snd (getSizeCache rt cfg e s)) = sizeCache s \<and>
         lastUpdatedAt (snd (getSizeCache rt cfg e s)) = lastUpdatedAt s"
  using assms by (simp add: getCategories_failed getSizeCache_def Let_def)

lemma add_two_thumb: "own (add_categories two_categories empty_table) ''thumb'' = Some thumb_wide"
  by (simp add: two_categories_def thumb_def thumb_wide_def large_def empty_table_def)

text \<open>
  A populated cache, read again fifteen minutes later while the network is down, or
  while the service answers 503: the refresh is attempted, fails, and the caller gets the
  mapping of the earlier refresh.
\<close>

theorem failed_refresh_keeps_cache_witness:
  "refresh_failed (reads_as []) local_cfg (offline_env 900000) \<and>
   refresh_failed (reads_as []) local_cfg (answering_env 503 ''Service Unavailable'' 900000) \<and>
   needs_reload populated_state (now_entry (offline_env 900000)) \<and>
   fst (getSizeCache (reads_as []) local_cfg (offline_env 900000) populated_state)
     = sizeCache populated_state \<and>
   own (the (fst (getSizeCache (reads_as []) local_cfg (answering_env 503 ''Service Unavailable'' 900000)
          populated_state))) ''thumb'' = Some thumb_wide \<and>
   lastUpdatedAt (snd (getSizeCache (reads_as []) local_cfg (offline_env 900000) populated_state))
     = Some 1000"
proof -
  have f1: "refresh_failed (reads_as []) local_cfg (offline_env 900000)"
    by (simp add: refresh_failed_def makeApiCall_def offline_env_def)
  have f2: "refresh_failed (reads_as []) local_cfg (answering_env 503 ''Service Unavailable'' 900000)"
    by (simp add: refresh_failed_def makeApiCall_def answering_env_def response_ok_def
        plain_response_def)
  have stale: "needs_reload populated_state (now_entry (offline_env 900000))"
    by (simp add: populated_state_eq needs_reload_def offline_env_def fiveMinutesInMs_def)
  have c: "sizeCache populated_state = Some (add_categories two_categories empty_table)"
    and u: "lastUpdatedAt populated_state = Some 1000"
    by (simp_all add: populated_state_eq)
  from failed_refresh_keeps_cache [OF f1, of populated_state]
  have r1: "fst (getSizeCache (reads_as []) local_cfg (offline_env 900000) populated_state)
     = sizeCache populated_state"
    and r3: "lastUpdatedAt (snd (getSizeCache (reads_as []) local_cfg (offline_env 900000)
       populated_state)) = Some 1000"
    by (simp_all only: u)
  from failed_refresh_keeps_cache [OF f2, of populated_state]
  have "fst (getSizeCache (reads_as []) local_cfg (answering_env 503 ''Service Unavailable'' 900000)
          populated_state) = Some (add_categories two_categories empty_table)"
    by (simp only: c)
  then have r2: "own (the (fst (getSizeCache (reads_as []) local_cfg
       (answering_env 503 ''Service Unavailable'' 900000) populated_state))) ''thumb'' = Some thumb_wide"
    by (simp only: option.sel add_two_thumb)
  from f1 f2 stale r1 r2 r3 show ?thesis by blast
qed

lemma run_gets_fresh:
  "sizeCache s \<noteq> None \<Longrightarrow> lastAccessedAt s = Some t \<Longrightarrow> t \<noteq> 0 \<Longrightarrow>
   list_all clock_after_epoch es \<Longrightarrow> within_window t es \<Longrightarrow>
     calls (run_gets rt cfg es s) = calls s \<and> sizeCache (run_gets rt cfg es s) = sizeCache s
     \<and> lastUpdatedAt (run_gets rt cfg es s) = lastUpdatedAt s"
proof (induction es arbitrary: s t)
  case Nil
  then show ?case by simp
next
  case (Cons e es)
  have fresh: "\<not> needs_reload s (now_entry e)"
    using Cons.prems by (simp add: needs_reload_def)
  let ?s' = "s\<lparr>lastAccessedAt := Some (now_exit e)\<rparr>"
  have step: "snd (getSizeCache rt cfg e s) = ?s'"
    using fresh by (simp add: getSizeCache_fresh)
  have "calls (run_gets rt cfg es ?s') = calls ?s' \<and> sizeCache (run_gets rt cfg es ?s') = sizeCache ?s'
     \<and> lastUpdatedAt (run_gets rt cfg es ?s') = lastUpdatedAt ?s'"
    using Cons.prems by (intro Cons.IH [of ?s' "now_exit e"]) (simp_all add: clock_after_epoch_def)
  then show ?case by (simp add: step)
qed

text \<open>
  C4. Once a \<open>getSizeCache\<close> call has left the cache populated, any sequence of further
  calls, of whatever length, in which each call starts within five minutes of the access
  time recorded by the call before it, makes no refresh at all: the access time is
  rewritten by every call and is what staleness is measured from, so the mapping and
  \<open>lastUpdatedAt\<close> stay those of the last successful refresh however long ago it was.
  The clock is that of a running system: its readings are positive.
\<close>

theorem polled_cache_never_refreshes:
  assumes "sizeCache (snd (getSizeCache rt cfg e s)) \<noteq> None"
    and "list_all clock_after_epoch (e # es)"
    and "within_window (now_exit e) es"
  shows "calls (run_gets rt' cfg' es (snd (getSizeCache rt cfg e s))) = calls (snd (getSizeCache rt cfg e s))
       \<and> sizeCache (run_gets rt' cfg' es (snd (getSizeCache rt cfg e s)))
           = sizeCache (snd (getSizeCache rt cfg e s))
       \<and> lastUpdatedAt (run_gets rt' cfg' es (snd (getSizeCache rt cfg e s)))
           = lastUpdatedAt (snd (getSizeCache rt cfg e s))"
proof (rule run_gets_fresh [OF assms(1) _ _ _ assms(3)])
  show "lastAccessedAt (snd (getSizeCache rt cfg e s)) = Some (now_exit e)"
    by (simp add: getSizeCache_def Let_def)
  show "now_exit e \<noteq> 0" using assms(2) by (simp add: clock_after_epoch_def)
  show "list_all clock_after_epoch es" using assms(2) by simp
qed

text \<open>
  Four reads, four minutes apart, after a refresh at time 1000: sixteen minutes later the
  only call ever made is still that first refresh.
\<close>

theorem polled_cache_never_refreshes_witness:
  "sizeCache (snd (getSizeCache (reads_as two_categories) local_cfg (online_env 1000) initial_state))
     \<noteq> None \<and>
   list_all clock_after_epoch
     [online_env 1000, online_env 240000, online_env 480000, online_env 720000, online_env 960000] \<and>
   within_window (now_exit (online_env 1000))
     [online_env 240000, online_env 480000, online_env 720000, online_env 960000] \<and>
   calls (run_gets (reads_as []) local_cfg
            [online_env 240000, online_env 480000, online_env 720000, online_env 960000]
            (snd (getSizeCache (reads_as two_categories) local_cfg (online_env 1000) initial_state)))
     = [size_list_call] \<and>
   lastUpdatedAt (run_gets (reads_as []) local_cfg
            [online_env 240000, online_env 480000, online_env 720000, online_env 960000]
            (snd (getSizeCache (reads_as two_categories) local_cfg (online_env 1000) initial_state)))
     = Some 1000"
proof -
  have p: "sizeCache (snd (getSizeCache (reads_as two_categories) local_cfg (online_env 1000)
      initial_state)) \<noteq> None"
    by (simp only: populated_state_def [symmetric]) (simp add: populated_state_eq)
  have v: "list_all clock_after_epoch
     (online_env 1000 # [online_env 240000, online_env 480000, online_env 720000, online_env 960000])"
    by (simp add: clock_after_epoch_def online_env_def answering_env_def)
  have w: "within_window (now_exit (online_env 1000))
     [online_env 240000, online_env 480000, online_env 720000, online_env 960000]"
    by (simp add: online_env_def answering_env_def fiveMinutesInMs_def)
  have c: "calls populated_state = [size_list_call]"
    and u: "lastUpdatedAt populated_state = Some 1000"
    by (simp_all add: populated_state_eq)
  from polled_cache_never_refreshes [OF p v w, of "reads_as []" local_cfg]
  have "calls (run_gets (reads_as []) local_cfg
            [online_env 240000, online_env 480000, online_env 720000, online_env 960000]
            populated_state) = [size_list_call] \<and>
        lastUpdatedAt (run_gets (reads_as []) local_cfg
            [online_env 240000, online_env 480000, online_env 720000, online_env 960000]
            populated_state) = Some 1000"
    by (simp only: populated_state_def [symmetric] c u)
  with p v w show ?thesis by (simp only: populated_state_def [symmetric]) blast
qed

section \<open>Properties of the response normalizer\<close>

lemma show_nat_404: "show_nat 404 = ''404''"
  by code_simp

lemma show_nat_500: "show_nat 500 = ''500''"
  by code_simp

lemma is_error_result_error [simp]: "is_error_result (error_result msg)"
  by (simp add: is_error_result_def error_result_def)

lemma object_with_error:
  "is_object v \<and> property v ''error'' \<noteq> None
     \<longleftrightarrow> (\<exists>kvs. v = JObj kvs \<and> ''error'' \<in> fst ` set kvs)"
  by (cases v) (auto simp add: map_of_eq_None_iff)

text \<open>
  C5. For a failed response whose content type includes \<open>application/json\<close>, the message
  of the normalizer (the variable \<open>errorMessage\<close>) is the pretty-printed JSON of the
  parsed body when the body parses to an object with a property \<open>error\<close>, and the raw
  text of the body otherwise, also when the body does not parse. The handler throws it
  behind its own wording and the status. In particular, for status 404 and the body
  \<open>{"error":"not found"}\<close> the message is the pretty-printed \<open>{"error":"not found"}\<close>.
\<close>

theorem json_error_message:
  assumes "includes_str (content_type r) ''application/json''"
  shows "(\<forall>kvs. JSON_parse rt (responseText r) = Inr (JObj kvs) \<and> ''error'' \<in> fst ` set kvs
            \<longrightarrow> errorMessage rt r = JSON_stringify2 rt (JObj kvs)) \<and>
         (\<not> (\<exists>kvs. JSON_parse rt (responseText r) = Inr (JObj kvs) \<and> ''error'' \<in> fst ` set kvs)
            \<longrightarrow> errorMessage rt r = responseText r) \<and>
         (\<not> response_ok r \<longrightarrow>
            normalize_response rt failure r
              = Inl (failure @ '': '' @ show_nat (status r) @ '' '' @ errorMessage rt r))"
proof (intro conjI allI impI)
  fix kvs
  assume "JSON_parse rt (responseText r) = Inr (JObj kvs) \<and> ''error'' \<in> fst ` set kvs"
  then have p: "JSON_parse rt (responseText r) = Inr (JObj kvs)"
    and "is_object (JObj kvs) \<and> property (JObj kvs) ''error'' \<noteq> None"
    unfolding object_with_error by auto
  with assms show "errorMessage rt r = JSON_stringify2 rt (JObj kvs)"
    by (simp add: errorMessage_def)
next
  assume none: "\<not> (\<exists>kvs. JSON_parse rt (responseText r) = Inr (JObj kvs) \<and> ''error'' \<in> fst ` set kvs)"
  show "errorMessage rt r = responseText r"
  proof (cases "JSON_parse rt (responseText r)")
    case (Inl parseError)
    with assms show ?thesis by (simp add: errorMessage_def)
  next
    case (Inr errorData)
    with none have "\<not> (is_object errorData \<and> property errorData ''error'' \<noteq> None)"
      unfolding object_with_error by auto
    with assms Inr show ?thesis by (auto simp add: errorMessage_def)
  qed
next
  assume "\<not> response_ok r"
  then show "normalize_response rt failure r
              = Inl (failure @ '': '' @ show_nat (status r) @ '' '' @ errorMessage rt r)"
    by (simp add: normalize_response_def)
qed

theorem json_error_message_witness:
  "includes_str (content_type not_found_response) ''application/json'' \<and>
   JSON_parse sample_runtime (responseText not_found_response)
     = Inr (JObj [(''error'', JStr ''not found'')]) \<and>
   ''error'' \<in> fst ` set [(''error'', JStr ''not found'')] \<and>
   \<not> response_ok not_found_response \<and>
   errorMessage sample_runtime not_found_response
     = JSON_stringify2 sample_runtime (JObj [(''error'', JStr ''not found'')]) \<and>
   errorMessage sample_runtime not_found_response
     = ''{'' @ nl @ ''  \"error\": \"not found\"'' @ nl @ ''}'' \<and>
   normalize_response sample_runtime ''Failed to get image metadata'' not_found_response
     = Inl (''Failed to get image metadata: 404 ''
            @ JSON_stringify2 sample_runtime (JObj [(''error'', JStr ''not found'')]))"
proof -
  have a: "includes_str (content_type not_found_response) ''application/json''"
    by (simp add: content_type_def not_found_response_def)
  have b: "JSON_parse sample_runtime (responseText not_found_response)
     = Inr (JObj [(''error'', JStr ''not found'')])"
    by (simp add: sample_runtime_def not_found_response_def)
  have c: "''error'' \<in> fst ` set [(''error'', JStr ''not found'')]" by simp
  have d: "\<not> response_ok not_found_response"
    by (simp add: response_ok_def not_found_response_def)
  have st: "status not_found_response = 404" by (simp add: not_found_response_def)
  have pr: "JSON_stringify2 sample_runtime (JObj [(''error'', JStr ''not found'')])
     = ''{'' @ nl @ ''  \"error\": \"not found\"'' @ nl @ ''}''"
    by (simp add: sample_runtime_def quote_str_def escape_char_def numeral_2_eq_2)
  from json_error_message [OF a, of sample_runtime "''Failed to get image metadata''"] b c d
  have m: "errorMessage sample_runtime not_found_response
     = JSON_stringify2 sample_runtime (JObj [(''error'', JStr ''not found'')])"
    and n: "normalize_response sample_runtime ''Failed to get image metadata'' not_found_response
     = Inl (''Failed to get image metadata'' @ '': '' @ show_nat (status not_found_response) @ '' ''
            @ errorMessage sample_runtime not_found_response)"
    by blast+
  from n have n': "normalize_response sample_runtime ''Failed to get image metadata'' not_found_response
     = Inl (''Failed to get image metadata: 404 ''
            @ JSON_stringify2 sample_runtime (JObj [(''error'', JStr ''not found'')]))"
    by (simp only: m st show_nat_404) simp
  from m pr have m': "errorMessage sample_runtime not_found_response
     = ''{'' @ nl @ ''  \"error\": \"not found\"'' @ nl @ ''}''"
    by (rule trans)
  from a b c d m m' n' show ?thesis by blast
qed

lemma find_str_Some: "find_str pat s = Some (b, a) \<Longrightarrow> s = b @ pat @ a"
proof (induction s arbitrary: b)
  case Nil
  then show ?case by (simp split: if_splits)
next
  case (Cons c cs)
  show ?case
  proof (cases "prefix pat (c # cs)")
    case True
    with Cons.prems have "b = []" "a = drop (length pat) (c # cs)" by simp_all
    moreover from True have "c # cs = pat @ drop (length pat) (c # cs)"
      by (metis append_eq_conv_conj prefix_def)
    ultimately show ?thesis by simp
  next
    case False
    with Cons.prems obtain b' where "find_str pat cs = Some (b', a)" "b = c # b'"
      by auto
    with Cons.IH show ?thesis by simp
  qed
qed

lemma find_str_first:
  "find_str pat s = Some (b, a) \<Longrightarrow> s = b' @ pat @ a' \<Longrightarrow> length b \<le> length b'"
proof (induction s arbitrary: b b')
  case Nil
  then show ?case by (simp split: if_splits)
next
  case (Cons c cs)
  show ?case
  proof (cases "prefix pat (c # cs)")
    case True
    with Cons.prems(1) have "b = []" by simp
    then show ?thesis by simp
  next
    case False
    with Cons.prems(1) obtain b0 where b0: "find_str pat cs = Some (b0, a)" "b = c # b0"
      by auto
    from False Cons.prems(2) have "b' \<noteq> []" by (auto simp add: prefix_def)
    then obtain b1 where b1: "b' = c # b1" "cs = b1 @ pat @ a'"
      using Cons.prems(2) by (cases b') auto
    from Cons.IH [OF b0(1) b1(2)] b0(2) b1(1) show ?thesis by simp
  qed
qed

lemma find_str_None: "find_str pat s = None \<longleftrightarrow> \<not> (\<exists>b a. s = b @ pat @ a)"
proof (induction s)
  case Nil
  then show ?case by auto
next
  case (Cons c cs)
  show ?case
  proof (cases "prefix pat (c # cs)")
    case True
    then have "\<exists>a. c # cs = [] @ pat @ a" by (auto simp add: prefix_def)
    with True show ?thesis by (metis find_str.simps(2) option.distinct(1))
  next
    case False
    have "(\<exists>b a. c # cs = b @ pat @ a) \<longleftrightarrow> (\<exists>b a. cs = b @ pat @ a)"
    proof
      assume "\<exists>b a. c # cs = b @ pat @ a"
      then obtain b a where ba: "c # cs = b @ pat @ a" by blast
      with False have "b \<noteq> []" by (auto simp add: prefix_def)
      with ba show "\<exists>b a. cs = b @ pat @ a" by (cases b) auto
    next
      assume "\<exists>b a. cs = b @ pat @ a"
      then obtain b a where "cs = b @ pat @ a" by blast
      then have "c # cs = (c # b) @ pat @ a" by simp
      then show "\<exists>b a. c # cs = b @ pat @ a" by blast
    qed
    with False Cons.IH show ?thesis by simp
  qed
qed

lemma find_str_first_at: "find_str pat s = Some (b, a) \<longleftrightarrow> first_at pat b s \<and> s = b @ pat @ a"
proof
  assume f: "find_str pat s = Some (b, a)"
  from find_str_Some [OF f] find_str_first [OF f]
  show "first_at pat b s \<and> s = b @ pat @ a" by (auto simp add: first_at_def)
next
  assume "first_at pat b s \<and> s = b @ pat @ a"
  then have s: "s = b @ pat @ a" and m: "\<And>b' a'. s = b' @ pat @ a' \<Longrightarrow> length b \<le> length b'"
    by (auto simp add: first_at_def)
  from s have "find_str pat s \<noteq> None" unfolding find_str_None by blast
  then obtain b0 a0 where f: "find_str pat s = Some (b0, a0)" by auto
  from find_str_Some [OF f] have s0: "s = b0 @ pat @ a0" .
  from find_str_first [OF f s] m [OF s0] have "length b0 = length b" by simp
  with s0 s have "b0 = b" "a0 = a" by auto
  with f show "find_str pat s = Some (b, a)" by simp
qed

lemma later_suffix:
  assumes "s = b0 @ p @ r0" and "s = b @ p @ t" and "length b0 \<le> length b"
  shows "\<exists>x. r0 = x @ t"
proof -
  have "t = drop (length b + length p) s" using assms(2) by simp
  also have "\<dots> = drop (length b - length b0) (drop (length b0 + length p) s)"
    using assms(3) by simp
  also have "drop (length b0 + length p) s = r0" using assms(1) by simp
  finally have "r0 = take (length b - length b0) r0 @ t" by simp
  then show ?thesis by blast
qed

lemma match_pre_Some:
  "match_pre s = Some i \<longleftrightarrow>
     (\<exists>b a. s = b @ ''<pre>'' @ i @ ''</pre>'' @ a \<and> first_at ''<pre>'' b s
            \<and> first_at ''</pre>'' i (i @ ''</pre>'' @ a))"
proof
  assume m: "match_pre s = Some i"
  then obtain b r where f1: "find_str ''<pre>'' s = Some (b, r)"
    by (auto simp add: match_pre_def split: option.splits)
  with m obtain a where f2: "find_str ''</pre>'' r = Some (i, a)"
    by (auto simp add: match_pre_def split: option.splits)
  from f1 f2 show "\<exists>b a. s = b @ ''<pre>'' @ i @ ''</pre>'' @ a \<and> first_at ''<pre>'' b s
            \<and> first_at ''</pre>'' i (i @ ''</pre>'' @ a)"
    unfolding find_str_first_at by auto
next
  assume "\<exists>b a. s = b @ ''<pre>'' @ i @ ''</pre>'' @ a \<and> first_at ''<pre>'' b s
            \<and> first_at ''</pre>'' i (i @ ''</pre>'' @ a)"
  then obtain b a where s: "s = b @ ''<pre>'' @ (i @ ''</pre>'' @ a)"
    and p: "first_at ''<pre>'' b s" and q: "first_at ''</pre>'' i (i @ ''</pre>'' @ a)"
    by auto
  from p s have "find_str ''<pre>'' s = Some (b, i @ ''</pre>'' @ a)"
    by (simp only: find_str_first_at)
  moreover from q have "find_str ''</pre>'' (i @ ''</pre>'' @ a) = Some (i, a)"
    by (simp only: find_str_first_at)
  ultimately show "match_pre s = Some i" by (simp add: match_pre_def)
qed

lemma match_pre_None:
  "match_pre s = None \<longleftrightarrow> \<not> (\<exists>b i a. s = b @ ''<pre>'' @ i @ ''</pre>'' @ a)"
proof
  assume n: "match_pre s = None"
  show "\<not> (\<exists>b i a. s = b @ ''<pre>'' @ i @ ''</pre>'' @ a)"
  proof
    assume "\<exists>b i a. s = b @ ''<pre>'' @ i @ ''</pre>'' @ a"
    then obtain b i a where d: "s = b @ ''<pre>'' @ (i @ ''</pre>'' @ a)" by auto
    then have "find_str ''<pre>'' s \<noteq> None" unfolding find_str_None by blast
    then obtain b0 r0 where f: "find_str ''<pre>'' s = Some (b0, r0)" by auto
    from n f have "find_str ''</pre>'' r0 = None"
      by (simp add: match_pre_def split: option.splits prod.splits)
    then have none: "\<not> (\<exists>x y. r0 = x @ ''</pre>'' @ y)" by (simp add: find_str_None)
    from later_suffix [OF find_str_Some [OF f] d find_str_first [OF f d]]
    obtain x where "r0 = x @ i @ ''</pre>'' @ a" by blast
    then have "r0 = (x @ i) @ ''</pre>'' @ a" by simp
    with none show False by blast
  qed
next
  assume none: "\<not> (\<exists>b i a. s = b @ ''<pre>'' @ i @ ''</pre>'' @ a)"
  show "match_pre s = None"
  proof (rule ccontr)
    assume "match_pre s \<noteq> None"
    then obtain i where "match_pre s = Some i" by auto
    with none show False unfolding match_pre_Some by blast
  qed
qed

lemma replaced_Cons:
  assumes "\<not> occurs_at tag [] (c # cs)" and "replaced tag rep cs out"
  shows "replaced tag rep (c # cs) (c # out)"
  using assms(2)
proof cases
  case no_match
  have "\<forall>b. \<not> occurs_at tag b (c # cs)"
  proof (intro allI notI)
    fix b
    assume o: "occurs_at tag b (c # cs)"
    show False
    proof (cases b)
      case Nil
      with o assms(1) show False by simp
    next
      case (Cons x b')
      with o have "occurs_at tag b' cs" by (auto simp add: occurs_at_def)
      with no_match show False by blast
    qed
  qed
  then have "replaced tag rep (c # cs) (c # cs)" by (rule replaced.no_match)
  with no_match show ?thesis by simp
next
  case (first_match t b a out')
  have "replaced tag rep ((c # b) @ t @ a) ((c # b) @ rep @ out')"
  proof (rule replaced.first_match)
    show "tag t" by fact
    show "\<forall>b'. occurs_at tag b' ((c # b) @ t @ a) \<longrightarrow> length (c # b) \<le> length b'"
    proof (intro allI impI)
      fix b'
      assume o: "occurs_at tag b' ((c # b) @ t @ a)"
      show "length (c # b) \<le> length b'"
      proof (cases b')
        case Nil
        with o assms(1) first_match(1) show ?thesis by simp
      next
        case (Cons x b'')
        with o have "occurs_at tag b'' (b @ t @ a)" by (auto simp add: occurs_at_def)
        with first_match have "length b \<le> length b''" by blast
        with Cons show ?thesis by simp
      qed
    qed
    show "replaced tag rep a out'" by fact
  qed
  with first_match show ?thesis by simp
qed

lemma replaced_head:
  "tag t \<Longrightarrow> replaced tag rep a out \<Longrightarrow> replaced tag rep (t @ a) (rep @ out)"
  using replaced.first_match [of tag t "[]" a rep out] by simp

lemma not_js_space [simp]: "\<not> js_space (CHR ''>'')" "\<not> js_space (CHR ''/'')"
  by (simp_all add: js_space_def)

lemma br_tag_not_Nil: "br_tag t \<Longrightarrow> t \<noteq> []"
  by (auto simp add: br_tag_def)

lemma match_br_Some: "match_br s = Some rest \<Longrightarrow> \<exists>t. br_tag t \<and> s = t @ rest"
proof -
  assume m: "match_br s = Some rest"
  then have p: "prefix ''<br'' s" by (simp add: match_br_def split: if_splits)
  then have s: "s = ''<br'' @ drop 3 s" by (auto simp add: prefix_def)
  let ?ws = "takeWhile js_space (drop 3 s)"
  have ws: "list_all js_space ?ws" by (simp add: list_all_iff) (metis set_takeWhileD)
  have d: "drop 3 s = ?ws @ dropWhile js_space (drop 3 s)" by simp
  from m p consider
      (gt) "dropWhile js_space (drop 3 s) = CHR ''>'' # rest"
    | (slash) "dropWhile js_space (drop 3 s) = CHR ''/'' # CHR ''>'' # rest"
    by (auto simp add: match_br_def split: list.splits if_splits)
  then show ?thesis
  proof cases
    case gt
    with d have "drop 3 s = ?ws @ ''>'' @ rest" by simp
    with s have "s = (''<br'' @ ?ws @ ''>'') @ rest" by (metis append.assoc)
    moreover have "br_tag (''<br'' @ ?ws @ ''>'')" using ws unfolding br_tag_def by blast
    ultimately show ?thesis by blast
  next
    case slash
    with d have "drop 3 s = ?ws @ ''/>'' @ rest" by simp
    with s have "s = (''<br'' @ ?ws @ ''/>'') @ rest" by (metis append.assoc)
    moreover have "br_tag (''<br'' @ ?ws @ ''/>'')" using ws unfolding br_tag_def by blast
    ultimately show ?thesis by blast
  qed
qed

lemma match_br_of_tag:
  assumes "list_all js_space ws"
  shows "match_br (''<br'' @ ws @ ''>'' @ a) = Some a"
    and "match_br (''<br'' @ ws @ ''/>'' @ a) = Some a"
proof -
  have d: "dropWhile js_space (ws @ ys) = dropWhile js_space ys" for ys
    using assms by (intro dropWhile_append2) (simp add: list_all_iff)
  show "match_br (''<br'' @ ws @ ''>'' @ a) = Some a"
    by (simp add: match_br_def d)
  show "match_br (''<br'' @ ws @ ''/>'' @ a) = Some a"
    by (simp add: match_br_def d)
qed

lemma match_br_None: "match_br s = None \<Longrightarrow> \<not> occurs_at br_tag [] s"
proof
  assume n: "match_br s = None" and "occurs_at br_tag [] s"
  then obtain t a where t: "br_tag t" and s: "s = t @ a" by (auto simp add: occurs_at_def)
  from t obtain ws where ws: "list_all js_space ws"
    and c: "t = ''<br'' @ ws @ ''>'' \<or> t = ''<br'' @ ws @ ''/>''"
    by (auto simp add: br_tag_def)
  from c s have "s = ''<br'' @ ws @ ''>'' @ a \<or> s = ''<br'' @ ws @ ''/>'' @ a" by auto
  with match_br_of_tag [OF ws, of a] have "match_br s = Some a" by auto
  with n show False by simp
qed

lemma replace_br_replaced: "replaced br_tag nl s (replace_br s)"
proof (induction s rule: replace_br.induct)
  case 1
  have "\<forall>b. \<not> occurs_at br_tag b []"
    by (auto simp add: occurs_at_def dest: br_tag_not_Nil)
  then show ?case by (simp add: replaced.no_match)
next
  case (2 c cs)
  show ?case
  proof (cases "match_br (c # cs)")
    case None
    from replaced_Cons [OF match_br_None [OF None] "2.IH"(1) [OF None]]
    show ?thesis using None by simp
  next
    case (Some rest)
    from match_br_Some [OF Some] obtain t where t: "br_tag t" and s: "c # cs = t @ rest" by blast
    have e: "replace_br (c # cs) = nl @ replace_br rest" using Some by simp
    from replaced_head [OF t "2.IH"(2) [OF Some]]
    have "replaced br_tag nl (t @ rest) (nl @ replace_br rest)" .
    then show ?thesis unfolding e by (simp only: s)
  qed
qed

lemma replace_all_replaced:
  "pat \<noteq> [] \<Longrightarrow> replaced (\<lambda>t. t = pat) rep s (replace_all pat rep s)"
proof (induction pat rep s rule: replace_all.induct)
  case (1 pat rep)
  have "\<forall>b. \<not> occurs_at (\<lambda>t. t = pat) b []"
    using 1 by (auto simp add: occurs_at_def)
  then show ?case by (simp add: replaced.no_match)
next
  case (2 pat rep c cs)
  show ?case
  proof (cases "prefix pat (c # cs)")
    case True
    then have s: "c # cs = pat @ drop (length pat) (c # cs)"
      by (metis append_eq_conv_conj prefix_def)
    have "replaced (\<lambda>t. t = pat) rep (drop (length pat) (c # cs))
            (replace_all pat rep (drop (length pat) (c # cs)))"
      using "2.IH"(1) "2.prems" True by simp
    from replaced_head [of "\<lambda>t. t = pat" pat, OF refl this]
    have "replaced (\<lambda>t. t = pat) rep (pat @ drop (length pat) (c # cs))
            (rep @ replace_all pat rep (drop (length pat) (c # cs)))" .
    then have "replaced (\<lambda>t. t = pat) rep (c # cs)
            (rep @ replace_all pat rep (drop (length pat) (c # cs)))"
      using s by simp
    then show ?thesis using True "2.prems" by simp
  next
    case False
    then have n: "\<not> occurs_at (\<lambda>t. t = pat) [] (c # cs)"
      by (auto simp add: occurs_at_def prefix_def)
    have "replaced (\<lambda>t. t = pat) rep cs (replace_all pat rep cs)"
      using "2.IH"(2) "2.prems" False by simp
    from replaced_Cons [OF n this] show ?thesis using False by simp
  qed
qed

lemma trim_trimmed: "trimmed s (trim s)"
proof -
  let ?l = "takeWhile js_space s"
  let ?u = "dropWhile js_space s"
  let ?m = "rev (dropWhile js_space (rev ?u))"
  let ?r = "rev (takeWhile js_space (rev ?u))"
  have u: "?u = ?m @ ?r"
    by (metis rev_append rev_rev_ident takeWhile_dropWhile_id)
  have s: "s = ?l @ ?m @ ?r"
    using u by (metis takeWhile_dropWhile_id)
  have l: "list_all js_space ?l" by (simp add: list_all_iff) (metis set_takeWhileD)
  have r: "list_all js_space ?r" by (simp add: list_all_iff) (metis set_takeWhileD)
  have e: "\<not> js_space (hd ?m) \<and> \<not> js_space (last ?m)" if ne: "?m \<noteq> []"
  proof
    have une: "?u \<noteq> []"
    proof
      assume "?u = []"
      then have "?m = []" by (simp only: rev.simps dropWhile.simps)
      with ne show False by simp
    qed
    from ne u have "hd ?m = hd ?u" by (metis hd_append2)
    also from une have "\<not> js_space (hd ?u)" by (rule hd_dropWhile)
    finally show "\<not> js_space (hd ?m)" .
    from ne have d: "dropWhile js_space (rev ?u) \<noteq> []" by (metis rev.simps(1))
    then have "last ?m = hd (dropWhile js_space (rev ?u))" by (simp only: last_rev)
    also from d have "\<not> js_space (hd (dropWhile js_space (rev ?u)))" by (rule hd_dropWhile)
    finally show "\<not> js_space (last ?m)" .
  qed
  have "trim s = ?m" by (simp add: trim_def)
  with s l r e show ?thesis unfolding trimmed_def by metis
qed

lemma htmlError_decoded: "decoded_block inner (htmlError inner)"
  unfolding decoded_block_def htmlError_def
  by (rule exI [of _ "replace_br inner"],
      rule exI [of _ "replace_all ''&nbsp;'' '' '' (replace_br inner)"],
      rule exI [of _ "replace_all ''&#39;'' [CHR 0x27] (replace_all ''&nbsp;'' '' '' (replace_br inner))"])
     (simp add: replace_br_replaced replace_all_replaced trim_trimmed)

lemma replaced_unique:
  assumes u: "\<And>t t' a a'. tag t \<Longrightarrow> tag t' \<Longrightarrow> t @ a = t' @ a' \<Longrightarrow> t = t'"
  shows "replaced tag rep s out1 \<Longrightarrow> replaced tag rep s out2 \<Longrightarrow> out1 = out2"
proof (induction arbitrary: out2 rule: replaced.induct)
  case (no_match s)
  note none = no_match.hyps
  from no_match.prems show ?case
  proof cases
    case no_match
    then show ?thesis by simp
  next
    case (first_match t b a out)
    then have "occurs_at tag b s" by (auto simp add: occurs_at_def)
    with none show ?thesis by blast
  qed
next
  case (first_match t b a out)
  note tag = first_match.hyps(1) and least = first_match.hyps(2) and IH = first_match.IH
  have here: "occurs_at tag b (b @ t @ a)" using tag by (auto simp add: occurs_at_def)
  from first_match.prems show ?case
  proof cases
    case no_match
    with here show ?thesis by blast
  next
    case (first_match t' b' a' out')
    have "occurs_at tag b' (b @ t @ a)"
      using first_match(1,3) by (auto simp add: occurs_at_def)
    with least have l1: "length b \<le> length b'" by blast
    from first_match(1,4) here have l2: "length b' \<le> length b" by simp
    from l1 l2 first_match(1) have b: "b = b'" and ta: "t @ a = t' @ a'" by auto
    from u [OF tag first_match(3) ta] have t: "t = t'" .
    with ta have a: "a = a'" by simp
    from IH [of out'] first_match(5) a have "out = out'" by simp
    with first_match(2) b show ?thesis by simp
  qed
qed

lemma br_tag_unique:
  assumes "br_tag t" and "br_tag t'" and "t @ a = t' @ a'"
  shows "t = t'"
proof -
  have m: "match_br (t @ a) = Some a" if "br_tag t" for t a
  proof -
    from that obtain ws where ws: "list_all js_space ws"
      and c: "t = ''<br'' @ ws @ ''>'' \<or> t = ''<br'' @ ws @ ''/>''"
      by (auto simp add: br_tag_def)
    from c have "t @ a = ''<br'' @ ws @ ''>'' @ a \<or> t @ a = ''<br'' @ ws @ ''/>'' @ a" by auto
    with match_br_of_tag [OF ws, of a] show ?thesis by auto
  qed
  from m [OF assms(1), of a] m [OF assms(2), of a'] assms(3) have "a = a'" by simp
  with assms(3) show ?thesis by simp
qed

lemma trimmed_unique: "trimmed s m \<Longrightarrow> m = trim s"
proof -
  assume "trimmed s m"
  then obtain l r where s: "s = l @ m @ r" and l: "list_all js_space l" and r: "list_all js_space r"
    and e: "m = [] \<or> (\<not> js_space (hd m) \<and> \<not> js_space (last m))"
    unfolding trimmed_def by blast
  have dl: "dropWhile js_space (l @ ys) = dropWhile js_space ys" for ys
    using l by (intro dropWhile_append2) (simp add: list_all_iff)
  have dr: "dropWhile js_space (rev r @ ys) = dropWhile js_space ys" for ys
    using r by (intro dropWhile_append2) (simp add: list_all_iff)
  show ?thesis
  proof (cases "m = []")
    case True
    have d: "dropWhile js_space s = []"
      unfolding s True using l r by (simp add: list_all_iff)
    show ?thesis by (simp only: trim_def d True rev.simps dropWhile.simps)
  next
    case False
    with e have h: "\<not> js_space (hd m)" and t: "\<not> js_space (last m)" by simp_all
    from False h have 1: "dropWhile js_space (m @ r) = m @ r" by (cases m) simp_all
    from False t have 2: "dropWhile js_space (rev m) = rev m"
      by (cases m rule: rev_cases) simp_all
    show ?thesis by (simp add: trim_def s dl 1 dr 2)
  qed
qed

lemma decoded_block_unique: "decoded_block inner m \<Longrightarrow> m = htmlError inner"
proof -
  assume "decoded_block inner m"
  then obtain s1 s2 s3 where 1: "replaced br_tag nl inner s1"
    and 2: "replaced (\<lambda>t. t = ''&nbsp;'') '' '' s1 s2"
    and 3: "replaced (\<lambda>t. t = ''&#39;'') [CHR 0x27] s2 s3"
    and 4: "trimmed s3 m"
    unfolding decoded_block_def by blast
  have s1: "s1 = replace_br inner"
    by (rule replaced_unique [OF br_tag_unique 1 replace_br_replaced])
  have s2: "s2 = replace_all ''&nbsp;'' '' '' s1"
    by (rule replaced_unique [OF _ 2 replace_all_replaced]) simp_all
  have s3: "s3 = replace_all ''&#39;'' [CHR 0x27] s2"
    by (rule replaced_unique [OF _ 3 replace_all_replaced]) simp_all
  from trimmed_unique [OF 4] show ?thesis by (simp add: htmlError_def s1 s2 s3)
qed

lemma htmlError_markup: "htmlError markup_inner = markup_message"
  unfolding markup_inner_def markup_message_def by code_simp

lemma show_nat_502: "show_nat 502 = ''502''"
  by code_simp

lemma htmlError_plain: "htmlError ''Internal Error'' = ''Internal Error''"
  by (simp add: htmlError_def trim_def match_br_def js_space_def)

lemma match_pre_html_error_body: "match_pre html_error_body = Some ''Internal Error''"
  by (simp add: match_pre_def html_error_body_def)

text \<open>
  C6 (as amended). For a failed response whose content type includes \<open>text/html\<close> and
  does not include \<open>application/json\<close> (which is tested first): if the body contains a
  \<open><pre>...</pre>\<close> block, the message is \<open>Server error: \<close> followed by the content of
  the first block (from the first \<open><pre>\<close> to the first \<open></pre>\<close> after it) with \<open><br>\<close>
  tags replaced by newlines, \<open>&nbsp;\<close> and \<open>&#39;\<close> decoded and whitespace trimmed; with
  no such block it is \<open>Server returned HTML error page (status)\<close>. What the handler makes
  of the content (\<open>htmlError\<close>) is the one text that is the content so replaced, decoded
  and trimmed, in that order (\<open>decoded_block\<close>). In particular status 500 with the body
  \<open><html><pre>Internal Error</pre></html>\<close> gives \<open>Server error: Internal Error\<close>.
\<close>

theorem html_error_message:
  assumes "includes_str (content_type r) ''text/html''"
    and "\<not> includes_str (content_type r) ''application/json''"
  shows "(\<forall>b i a. responseText r = b @ ''<pre>'' @ i @ ''</pre>'' @ a
              \<and> first_at ''<pre>'' b (responseText r) \<and> first_at ''</pre>'' i (i @ ''</pre>'' @ a)
            \<longrightarrow> errorMessage rt r = ''Server error: '' @ htmlError i) \<and>
         ((\<exists>b i a. responseText r = b @ ''<pre>'' @ i @ ''</pre>'' @ a)
            \<longrightarrow> (\<exists>b i a. responseText r = b @ ''<pre>'' @ i @ ''</pre>'' @ a
                       \<and> errorMessage rt r = ''Server error: '' @ htmlError i)) \<and>
         (\<not> (\<exists>b i a. responseText r = b @ ''<pre>'' @ i @ ''</pre>'' @ a)
            \<longrightarrow> errorMessage rt r = ''Server returned HTML error page ('' @ show_nat (status r) @ '')'') \<and>
         (\<not> response_ok r \<longrightarrow>
            normalize_response rt failure r
              = Inl (failure @ '': '' @ show_nat (status r) @ '' '' @ errorMessage rt r)) \<and>
         (\<forall>i m. decoded_block i m \<longleftrightarrow> m = htmlError i)"
proof (intro conjI allI impI)
  fix b i a
  assume "responseText r = b @ ''<pre>'' @ i @ ''</pre>'' @ a
              \<and> first_at ''<pre>'' b (responseText r) \<and> first_at ''</pre>'' i (i @ ''</pre>'' @ a)"
  then have "match_pre (responseText r) = Some i"
    unfolding match_pre_Some by blast
  with assms show "errorMessage rt r = ''Server error: '' @ htmlError i"
    by (simp add: errorMessage_def)
next
  assume "\<exists>b i a. responseText r = b @ ''<pre>'' @ i @ ''</pre>'' @ a"
  then have "match_pre (responseText r) \<noteq> None"
    using match_pre_None by blast
  then obtain i where i: "match_pre (responseText r) = Some i" by auto
  then obtain b a where "responseText r = b @ ''<pre>'' @ i @ ''</pre>'' @ a"
    unfolding match_pre_Some by blast
  moreover from i assms have "errorMessage rt r = ''Server error: '' @ htmlError i"
    by (simp add: errorMessage_def)
  ultimately show "\<exists>b i a. responseText r = b @ ''<pre>'' @ i @ ''</pre>'' @ a
                       \<and> errorMessage rt r = ''Server error: '' @ htmlError i"
    by blast
next
  assume "\<not> (\<exists>b i a. responseText r = b @ ''<pre>'' @ i @ ''</pre>'' @ a)"
  then have "match_pre (responseText r) = None" using match_pre_None by blast
  with assms show "errorMessage rt r = ''Server returned HTML error page ('' @ show_nat (status r) @ '')''"
    by (simp add: errorMessage_def)
next
  assume "\<not> response_ok r"
  then show "normalize_response rt failure r
              = Inl (failure @ '': '' @ show_nat (status r) @ '' '' @ errorMessage rt r)"
    by (simp add: normalize_response_def)
next
  fix i m
  show "decoded_block i m \<longleftrightarrow> m = htmlError i"
    using decoded_block_unique [of i m] htmlError_decoded [of i] by blast
qed

text \<open>
  The page of the claim, and a page whose block has whitespace around it, \<open><br>\<close> and
  \<open><br />\<close>, \<open>&#39;\<close> and \<open>&nbsp;\<close>: the message has the three lines, the apostrophe
  and the space, and no whitespace at its ends.
\<close>

theorem html_error_message_witness:
  "includes_str (content_type (html_error_response ''text/html'')) ''text/html'' \<and>
   \<not> includes_str (content_type (html_error_response ''text/html'')) ''application/json'' \<and>
   responseText (html_error_response ''text/html'')
      = ''<html>'' @ ''<pre>'' @ ''Internal Error'' @ ''</pre>'' @ ''</html>'' \<and>
   first_at ''<pre>'' ''<html>'' (responseText (html_error_response ''text/html'')) \<and>
   first_at ''</pre>'' ''Internal Error'' (''Internal Error'' @ ''</pre>'' @ ''</html>'') \<and>
   \<not> response_ok (html_error_response ''text/html'') \<and>
   errorMessage sample_runtime (html_error_response ''text/html'') = ''Server error: Internal Error'' \<and>
   normalize_response sample_runtime ''Failed to get image metadata'' (html_error_response ''text/html'')
     = Inl ''Failed to get image metadata: 500 Server error: Internal Error'' \<and>
   includes_str (content_type html_markup_response) ''text/html'' \<and>
   \<not> includes_str (content_type html_markup_response) ''application/json'' \<and>
   responseText html_markup_response
      = ''<html><body>'' @ ''<pre>'' @ markup_inner @ ''</pre>'' @ ''</body></html>'' \<and>
   first_at ''<pre>'' ''<html><body>'' (responseText html_markup_response) \<and>
   first_at ''</pre>'' markup_inner (markup_inner @ ''</pre>'' @ ''</body></html>'') \<and>
   \<not> response_ok html_markup_response \<and>
   decoded_block markup_inner markup_message \<and>
   errorMessage sample_runtime html_markup_response = ''Server error: '' @ markup_message \<and>
   normalize_response sample_runtime ''Failed to upload image'' html_markup_response
     = Inl (''Failed to upload image: 502 Server error: '' @ markup_message)"
proof -
  let ?r = "html_error_response ''text/html''"
  have a: "includes_str (content_type ?r) ''text/html''"
    by (simp add: content_type_def html_error_response_def)
  have b: "\<not> includes_str (content_type ?r) ''application/json''"
    by (simp add: content_type_def html_error_response_def)
  have c: "responseText ?r = ''<html>'' @ ''<pre>'' @ ''Internal Error'' @ ''</pre>'' @ ''</html>''"
    by (simp add: html_error_response_def html_error_body_def)
  have "find_str ''<pre>'' (responseText ?r) = Some (''<html>'', ''Internal Error</pre></html>'')"
    by (simp add: html_error_response_def html_error_body_def)
  then have d: "first_at ''<pre>'' ''<html>'' (responseText ?r)"
    using find_str_first_at by blast
  have "find_str ''</pre>'' (''Internal Error'' @ ''</pre>'' @ ''</html>'') = Some (''Internal Error'', ''</html>'')"
    by simp
  then have e: "first_at ''</pre>'' ''Internal Error'' (''Internal Error'' @ ''</pre>'' @ ''</html>'')"
    using find_str_first_at by blast
  have f: "\<not> response_ok ?r" by (simp add: response_ok_def html_error_response_def)
  have st: "status ?r = 500" by (simp add: html_error_response_def)
  note T = html_error_message [OF a b, of sample_runtime "''Failed to get image metadata''"]
  have m: "errorMessage sample_runtime ?r = ''Server error: '' @ htmlError ''Internal Error''"
    by (rule T [THEN conjunct1, rule_format, of "''<html>''" "''Internal Error''" "''</html>''"])
       (intro conjI c d e)
  have n: "normalize_response sample_runtime ''Failed to get image metadata'' ?r
              = Inl (''Failed to get image metadata'' @ '': '' @ show_nat (status ?r) @ '' ''
                     @ errorMessage sample_runtime ?r)"
    by (rule T [THEN conjunct2, THEN conjunct2, THEN conjunct2, THEN conjunct1, rule_format]) (rule f)
  from m have m': "errorMessage sample_runtime ?r = ''Server error: Internal Error''"
    by (simp only: htmlError_plain) simp
  from n have n': "normalize_response sample_runtime ''Failed to get image metadata'' ?r
     = Inl ''Failed to get image metadata: 500 Server error: Internal Error''"
    by (simp only: m' st show_nat_500) simp
  let ?q = html_markup_response
  have a2: "includes_str (content_type ?q) ''text/html''"
    by (simp add: content_type_def html_markup_response_def)
  have b2: "\<not> includes_str (content_type ?q) ''application/json''"
    by (simp add: content_type_def html_markup_response_def)
  have c2: "responseText ?q = ''<html><body>'' @ ''<pre>'' @ markup_inner @ ''</pre>'' @ ''</body></html>''"
    by (simp add: html_markup_response_def)
  have "find_str ''<pre>'' (responseText ?q)
          = Some (''<html><body>'', markup_inner @ ''</pre>'' @ ''</body></html>'')"
    by (simp add: html_markup_response_def)
  then have d2: "first_at ''<pre>'' ''<html><body>'' (responseText ?q)"
    using find_str_first_at by blast
  have "find_str ''</pre>'' (markup_inner @ ''</pre>'' @ ''</body></html>'')
          = Some (markup_inner, ''</body></html>'')"
    by (simp add: markup_inner_def)
  then have e2: "first_at ''</pre>'' markup_inner (markup_inner @ ''</pre>'' @ ''</body></html>'')"
    using find_str_first_at by blast
  have f2: "\<not> response_ok ?q" by (simp add: response_ok_def html_markup_response_def)
  have st2: "status ?q = 502" by (simp add: html_markup_response_def)
  note U = html_error_message [OF a2 b2, of sample_runtime "''Failed to upload image''"]
  have "errorMessage sample_runtime ?q = ''Server error: '' @ htmlError markup_inner"
    by (rule U [THEN conjunct1, rule_format, of "''<html><body>''" markup_inner "''</body></html>''"])
       (intro conjI c2 d2 e2)
  then have m2: "errorMessage sample_runtime ?q = ''Server error: '' @ markup_message"
    by (simp only: htmlError_markup)
  have "normalize_response sample_runtime ''Failed to upload image'' ?q
              = Inl (''Failed to upload image'' @ '': '' @ show_nat (status ?q) @ '' ''
                     @ errorMessage sample_runtime ?q)"
    by (rule U [THEN conjunct2, THEN conjunct2, THEN conjunct2, THEN conjunct1, rule_format]) (rule f2)
  then have n2: "normalize_response sample_runtime ''Failed to upload image'' ?q
     = Inl (''Failed to upload image: 502 Server error: '' @ markup_message)"
    by (simp only: m2 st2 show_nat_502) simp
  have "decoded_block markup_inner markup_message \<longleftrightarrow> markup_message = htmlError markup_inner"
    by (rule U [THEN conjunct2, THEN conjunct2, THEN conjunct2, THEN conjunct2, rule_format])
  then have g2: "decoded_block markup_inner markup_message"
    by (simp only: htmlError_markup)
  show ?thesis
    by (intro conjI a b c d e f m' n' a2 b2 c2 d2 e2 f2 g2 m2 n2)
qed

text \<open>
  The same failed response under the content type \<open>application/json, text/html\<close> (two
  headers, as \<open>headers.get\<close> joins them), which includes \<open>text/html\<close>: the JSON branch
  is taken, the body does not parse, and the message is the raw body.
\<close>

theorem html_in_json_content_type:
  "includes_str (content_type (html_error_response ''application/json, text/html'')) ''text/html'' \<and>
   \<not> response_ok (html_error_response ''application/json, text/html'') \<and>
   responseText (html_error_response ''application/json, text/html'')
     = ''<html><pre>Internal Error</pre></html>'' \<and>
   errorMessage sample_runtime (html_error_response ''application/json, text/html'')
     = ''<html><pre>Internal Error</pre></html>''"
  by (simp add: errorMessage_def content_type_def html_error_response_def html_error_body_def
      response_ok_def sample_runtime_def not_found_body_def)

lemma normalize_unparsable:
  "response_ok r \<Longrightarrow> JSON_parse rt (responseText r) = Inl parseError \<Longrightarrow>
     normalize_response rt failure r = Inl (''Invalid JSON response: '' @ take 200 (responseText r))"
  by (simp add: normalize_response_def)


lemma long_body_not_json: "JSON_parse sample_runtime long_body = Inl ''Unexpected token''"
proof -
  have "length long_body \<noteq> length not_found_body"
    by (simp add: long_body_def not_found_body_def)
  then have "long_body \<noteq> not_found_body" by auto
  then show ?thesis by (simp add: sample_runtime_def)
qed



text \<open>A body of 250 characters: the message carries its first 200.\<close>

lemma unparsable_long_body_truncated:
  "fst (ix_get_image_metadata sample_runtime local_cfg (disk_env 200 long_body) [] ''42'')
     = error_result (''Invalid JSON response: '' @ replicate 200 (CHR ''x''))"
proof -
  let ?r = "plain_response 200 long_body"
  have ok: "response_ok ?r" by (simp add: response_ok_def plain_response_def)
  have bad: "JSON_parse sample_runtime (responseText ?r) = Inl ''Unexpected token''"
    using long_body_not_json by (simp add: plain_response_def)
  have c: "makeApiCall local_cfg (disk_env 200 long_body) (''/api/image/'' @ ''42'') GET_init = Response ?r"
    by (simp add: makeApiCall_def disk_env_def)
  have t: "take 200 (responseText ?r) = replicate 200 (CHR ''x'')"
    by (simp add: plain_response_def long_body_def)
  from normalize_unparsable [OF ok bad, of "''Failed to get image metadata''"] c t
  show ?thesis
    by (simp add: ix_get_image_metadata_def logged_call_def finish_def and_then_def)
qed

section \<open>Properties of the upload handlers\<close>

lemma p0_build_calls:
  "\<exists>rest. calls (snd (buildImageMetadataResponseText trt cfg e s metadata label)) = calls s @ rest
          \<and> set rest \<subseteq> {size_list_call}"
proof (cases "case resizedFiles metadata of None \<Rightarrow> False | Some fs \<Rightarrow> length fs > 0")
  case True
  obtain cache s1 where g: "getSizeCache trt cfg e s = (cache, s1)" by (cases "getSizeCache trt cfg e s")
  then have "calls s1 = calls s @ (if needs_reload s (now_entry e) then [size_list_call] else [])"
    using getSizeCache_calls [of trt cfg e s] by simp
  with True g show ?thesis
    by (auto simp add: buildImageMetadataResponseText_def Let_def)
next
  case False
  then show ?thesis by (simp add: buildImageMetadataResponseText_def Let_def)
qed

text \<open>
  C8. In every variant, an upload handler that has read its file calls the wrapper with
  \<open>POST /api/image/{category}?forceImmediateResize=true\<close> when it is
  \<open>upload_and_resize_image\<close> and with \<open>...=false\<close> when it is \<open>upload_image\<close>, and makes
  no other upload call; when the file cannot be read it calls nothing. (In the variant
  with the cache, the refresh \<open>GET /api/size/list\<close> may follow, for the size list of the
  answer.)
\<close>

theorem upload_request_path:
  "snd (ix_upload_and_resize_image rt cfg e log cat filename)
     = log @ (case readFile e filename of
                Inl err \<Rightarrow> []
              | Inr fileBuffer \<Rightarrow> [upload_call cat ''true'' fileBuffer filename]) \<and>
   snd (ix_upload_image rt cfg e log cat filename)
     = log @ (case readFile e filename of
                Inl err \<Rightarrow> []
              | Inr fileBuffer \<Rightarrow> [upload_call cat ''false'' fileBuffer filename]) \<and>
   snd (p1_upload_and_resize_image rt cfg e log cat filename)
     = log @ (case readFile e filename of
                Inl err \<Rightarrow> []
              | Inr fileBuffer \<Rightarrow> [upload_call cat ''true'' fileBuffer filename]) \<and>
   snd (p1_upload_image rt cfg e log cat filename)
     = log @ (case readFile e filename of
                Inl err \<Rightarrow> []
              | Inr fileBuffer \<Rightarrow> [upload_call cat ''false'' fileBuffer filename]) \<and>
   (\<exists>rest. calls (snd (p0_upload_and_resize_image trt cfg e s cat filename))
            = calls s @ (case readFile e filename of
                           Inl err \<Rightarrow> []
                         | Inr fileBuffer \<Rightarrow> upload_call cat ''true'' fileBuffer filename # rest)
          \<and> set rest \<subseteq> {size_list_call}) \<and>
   (\<exists>rest. calls (snd (p0_upload_image trt cfg e s cat filename))
            = calls s @ (case readFile e filename of
                           Inl err \<Rightarrow> []
                         | Inr fileBuffer \<Rightarrow> upload_call cat ''false'' fileBuffer filename # rest)
          \<and> set rest \<subseteq> {size_list_call}) \<and>
   fst (upload_call cat ''true'' fileBuffer filename) = ''/api/image/'' @ cat @ ''?forceImmediateResize=true'' \<and>
   fst (upload_call cat ''false'' fileBuffer filename) = ''/api/image/'' @ cat @ ''?forceImmediateResize=false'' \<and>
   httpMethod (snd (upload_call cat literal fileBuffer filename)) = Some ''POST''"
proof -
  have ix: "snd (ix_upload literal rt cfg e log cat filename)
     = log @ (case readFile e filename of
                Inl err \<Rightarrow> []
              | Inr fileBuffer \<Rightarrow> [upload_call cat literal fileBuffer filename])" for literal
    by (simp add: ix_upload_def logged_call_def upload_call_def
        split: sum.splits fetch_outcome.splits)
  have p1: "snd (p1_upload literal rt cfg e log cat filename)
     = log @ (case readFile e filename of
                Inl err \<Rightarrow> []
              | Inr fileBuffer \<Rightarrow> [upload_call cat literal fileBuffer filename])" for literal
    by (simp add: p1_upload_def logged_call_def upload_call_def
        split: sum.splits fetch_outcome.splits)
  have up: "calls (snd (uploadImage trt cfg e s cat filename resize))
     = calls s @ (case readFile e filename of
                    Inl err \<Rightarrow> []
                  | Inr fileBuffer \<Rightarrow> [upload_call cat (show_bool resize) fileBuffer filename])" for resize
    by (simp add: uploadImage_def p0_call_def upload_call_def
        split: sum.splits fetch_outcome.splits)
  have unread: "readFile e filename = Inl err \<Longrightarrow> isl (fst (uploadImage trt cfg e s cat filename resize))"
    for err resize
    by (simp add: uploadImage_def)
  have p0: "\<exists>rest. calls (snd (case uploadImage trt cfg e s cat filename resize of
                (Inl err, s1) \<Rightarrow> (error_result err, s1)
              | (Inr metadata, s1) \<Rightarrow>
                  (case buildImageMetadataResponseText trt cfg e s1 metadata label of
                     (formattedText, s2) \<Rightarrow> (text_result formattedText, s2))))
            = calls s @ (case readFile e filename of
                           Inl err \<Rightarrow> []
                         | Inr fileBuffer \<Rightarrow> upload_call cat (show_bool resize) fileBuffer filename # rest)
          \<and> set rest \<subseteq> {size_list_call}" for resize label
  proof (cases "uploadImage trt cfg e s cat filename resize")
    case (Pair res s1)
    have s1: "calls s1 = calls s @ (case readFile e filename of
                    Inl err \<Rightarrow> []
                  | Inr fileBuffer \<Rightarrow> [upload_call cat (show_bool resize) fileBuffer filename])"
      using up [of resize] Pair by simp
    show ?thesis
    proof (cases res)
      case (Inl err)
      with Pair s1 show ?thesis by (auto split: sum.splits intro: exI [of _ "[]"])
    next
      case (Inr metadata)
      from p0_build_calls [of trt cfg e s1 metadata label]
      obtain rest where rest: "calls (snd (buildImageMetadataResponseText trt cfg e s1 metadata label))
          = calls s1 @ rest" "set rest \<subseteq> {size_list_call}" by blast
      from Inr Pair unread [of _ resize] have "\<not> isl (readFile e filename)"
        by (cases "readFile e filename") auto
      with Pair Inr s1 rest show ?thesis
        by (auto split: sum.splits prod.splits intro!: exI [of _ rest])
    qed
  qed
  have c1: "snd (ix_upload_and_resize_image rt cfg e log cat filename)
     = log @ (case readFile e filename of
                Inl err \<Rightarrow> []
              | Inr fileBuffer \<Rightarrow> [upload_call cat ''true'' fileBuffer filename])"
    using ix [of "''true''"] by (simp add: ix_upload_and_resize_image_def)
  have c2: "snd (ix_upload_image rt cfg e log cat filename)
     = log @ (case readFile e filename of
                Inl err \<Rightarrow> []
              | Inr fileBuffer \<Rightarrow> [upload_call cat ''false'' fileBuffer filename])"
    using ix [of "''false''"] by (simp add: ix_upload_image_def)
  have c3: "snd (p1_upload_and_resize_image rt cfg e log cat filename)
     = log @ (case readFile e filename of
                Inl err \<Rightarrow> []
              | Inr fileBuffer \<Rightarrow> [upload_call cat ''true'' fileBuffer filename])"
    using p1 [of "''true''"] by (simp add: p1_upload_and_resize_image_def)
  have c4: "snd (p1_upload_image rt cfg e log cat filename)
     = log @ (case readFile e filename of
                Inl err \<Rightarrow> []
              | Inr fileBuffer \<Rightarrow> [upload_call cat ''false'' fileBuffer filename])"
    using p1 [of "''false''"] by (simp add: p1_upload_image_def)
  have c5: "\<exists>rest. calls (snd (p0_upload_and_resize_image trt cfg e s cat filename))
            = calls s @ (case readFile e filename of
                           Inl err \<Rightarrow> []
                         | Inr fileBuffer \<Rightarrow> upload_call cat ''true'' fileBuffer filename # rest)
          \<and> set rest \<subseteq> {size_list_call}"
    using p0 [where resize = True and label = "''Image uploaded and resized''"]
    unfolding p0_upload_and_resize_image_def show_bool_def if_True .
  have c6: "\<exists>rest. calls (snd (p0_upload_image trt cfg e s cat filename))
            = calls s @ (case readFile e filename of
                           Inl err \<Rightarrow> []
                         | Inr fileBuffer \<Rightarrow> upload_call cat ''false'' fileBuffer filename # rest)
          \<and> set rest \<subseteq> {size_list_call}"
    using p0 [where resize = False and label = "''Image uploaded''"]
    unfolding p0_upload_image_def show_bool_def if_False .
  have c7: "fst (upload_call cat ''true'' fileBuffer filename)
      = ''/api/image/'' @ cat @ ''?forceImmediateResize=true''"
    and c8: "fst (upload_call cat ''false'' fileBuffer filename)
      = ''/api/image/'' @ cat @ ''?forceImmediateResize=false''"
    and c9: "httpMethod (snd (upload_call cat literal fileBuffer filename)) = Some ''POST''"
    by (simp_all add: upload_call_def POST_init_def)
  show ?thesis by (intro conjI c1 c2 c3 c4 c5 c6 c7 c8 c9)
qed

theorem upload_request_path_witness:
  "calls (snd (p0_upload_and_resize_image upload_runtime local_cfg (disk_env 200 ''{}'') initial_state
        ''avatars'' ''/tmp/cat.png''))
     = [(''/api/image/avatars?forceImmediateResize=true'',
         \<lparr>httpMethod = Some ''POST'',
          body = Some \<lparr>field = ''image'', blob = [137, 80, 78, 71],
                       blobType = ''application/octet-stream'', fileName = ''cat.png''\<rparr>\<rparr>),
        size_list_call] \<and>
   calls (snd (p0_upload_image upload_runtime local_cfg (disk_env 200 ''{}'') initial_state
        ''avatars'' ''/tmp/cat.png''))
     = [(''/api/image/avatars?forceImmediateResize=false'',
         \<lparr>httpMethod = Some ''POST'',
          body = Some \<lparr>field = ''image'', blob = [137, 80, 78, 71],
                       blobType = ''application/octet-stream'', fileName = ''cat.png''\<rparr>\<rparr>),
        size_list_call] \<and>
   snd (ix_upload_and_resize_image sample_runtime local_cfg (disk_env 200 ''{}'') []
        ''avatars'' ''/tmp/cat.png'')
     = [(''/api/image/avatars?forceImmediateResize=true'',
         \<lparr>httpMethod = Some ''POST'',
          body = Some \<lparr>field = ''image'', blob = [137, 80, 78, 71],
                       blobType = ''application/octet-stream'', fileName = ''cat.png''\<rparr>\<rparr>)] \<and>
   snd (ix_upload_image sample_runtime local_cfg (disk_env 200 ''{}'') [] ''avatars'' ''/tmp/cat.png'')
     = [(''/api/image/avatars?forceImmediateResize=false'',
         \<lparr>httpMethod = Some ''POST'',
          body = Some \<lparr>field = ''image'', blob = [137, 80, 78, 71],
                       blobType = ''application/octet-stream'', fileName = ''cat.png''\<rparr>\<rparr>)] \<and>
   snd (ix_upload_image sample_runtime local_cfg (disk_env 200 ''{}'') [] ''avatars'' ''/tmp/dog.png'')
     = []"
proof -
  let ?e = "disk_env 200 ''{}''"
  have f: "readFile ?e ''/tmp/cat.png'' = Inr [137, 80, 78, 71]"
    and g: "readFile ?e ''/tmp/dog.png'' = Inl ''ENOENT: no such file or directory''"
    by (simp_all add: disk_env_def)
  have u: "upload_call ''avatars'' literal [137, 80, 78, 71] ''/tmp/cat.png''
     = (''/api/image/avatars?forceImmediateResize='' @ literal,
         \<lparr>httpMethod = Some ''POST'',
          body = Some \<lparr>field = ''image'', blob = [137, 80, 78, 71],
                       blobType = ''application/octet-stream'', fileName = ''cat.png''\<rparr>\<rparr>)" for literal
    by (simp add: upload_call_def POST_init_def upload_form_def upload_name_def)
  have p0a: "calls (snd (p0_upload_and_resize_image upload_runtime local_cfg ?e initial_state
        ''avatars'' ''/tmp/cat.png''))
     = [upload_call ''avatars'' ''true'' [137, 80, 78, 71] ''/tmp/cat.png'', size_list_call]"
    by (simp add: p0_upload_and_resize_image_def uploadImage_def p0_call_def makeApiCall_def
        disk_env_def plain_response_def response_ok_def upload_runtime_def sample_metadata_def
        buildImageMetadataResponseText_def getSizeCache_def getCategories_def needs_reload_def
        initial_state_def upload_call_def show_bool_def Let_def)
  have p0b: "calls (snd (p0_upload_image upload_runtime local_cfg ?e initial_state
        ''avatars'' ''/tmp/cat.png''))
     = [upload_call ''avatars'' ''false'' [137, 80, 78, 71] ''/tmp/cat.png'', size_list_call]"
    by (simp add: p0_upload_image_def uploadImage_def p0_call_def makeApiCall_def
        disk_env_def plain_response_def response_ok_def upload_runtime_def sample_metadata_def
        buildImageMetadataResponseText_def getSizeCache_def getCategories_def needs_reload_def
        initial_state_def upload_call_def show_bool_def Let_def)
  from upload_request_path [of sample_runtime local_cfg ?e "[]" "''avatars''" "''/tmp/cat.png''"] f
  have ixa: "snd (ix_upload_and_resize_image sample_runtime local_cfg ?e [] ''avatars'' ''/tmp/cat.png'')
       = [upload_call ''avatars'' ''true'' [137, 80, 78, 71] ''/tmp/cat.png'']"
    and ixb: "snd (ix_upload_image sample_runtime local_cfg ?e [] ''avatars'' ''/tmp/cat.png'')
       = [upload_call ''avatars'' ''false'' [137, 80, 78, 71] ''/tmp/cat.png'']"
    by simp_all
  from upload_request_path [of sample_runtime local_cfg ?e "[]" "''avatars''" "''/tmp/dog.png''"] g
  have ixc: "snd (ix_upload_image sample_runtime local_cfg ?e [] ''avatars'' ''/tmp/dog.png'') = []"
    by simp
  from p0a p0b ixa ixb ixc show ?thesis by (simp add: u)
qed

section \<open>Properties of the category listing\<close>

lemma includes_str_iff: "includes_str s pat \<longleftrightarrow> (\<exists>a c. s = a @ pat @ c)"
proof (induction s)
  case Nil
  then show ?case by auto
next
  case (Cons x xs)
  show ?case
  proof
    assume "includes_str (x # xs) pat"
    then consider "prefix pat (x # xs)" | "includes_str xs pat" by auto
    then show "\<exists>a c. x # xs = a @ pat @ c"
    proof cases
      case 1
      then obtain c where "x # xs = pat @ c" by (auto simp add: prefix_def)
      then have "x # xs = [] @ pat @ c" by simp
      then show ?thesis by blast
    next
      case 2
      with Cons.IH obtain a c where "xs = a @ pat @ c" by blast
      then have "x # xs = (x # a) @ pat @ c" by simp
      then show ?thesis by blast
    qed
  next
    assume "\<exists>a c. x # xs = a @ pat @ c"
    then obtain a c where d: "x # xs = a @ pat @ c" by blast
    show "includes_str (x # xs) pat"
    proof (cases a)
      case Nil
      with d have "prefix pat (x # xs)" by (simp add: prefix_def)
      then show ?thesis by simp
    next
      case (Cons y ys)
      with d have "xs = ys @ pat @ c" by simp
      with Cons.IH have "includes_str xs pat" by blast
      then show ?thesis by simp
    qed
  qed
qed

lemma ix_size_line_typed: "ix_size_line (json_of_size sz) = Inr (p0_size_line sz)"
  by (simp add: ix_size_line_def json_of_size_def p0_size_line_def or_default_def and_then_def)

lemma append_each_typed:
  "(\<And>x. f (g x) = Inr (h x)) \<Longrightarrow> append_each f (map g xs) = Inr (concat (map h xs))"
  by (induction xs) simp_all

lemma ix_category_block_typed: "ix_category_block (json_of_category c) = Inr (p0_category_block c)"
  by (simp add: ix_category_block_def json_of_category_def p0_category_block_def or_default_def
      and_then_def some_sizes_def append_each_typed [of ix_size_line json_of_size p0_size_line]
      ix_size_line_typed)

lemma ix_categories_text_typed:
  "ix_categories_text rt (JArr (map json_of_category cats)) =
     Inr (''## Available Image Categories'' @ nl @ nl
          @ (if cats = [] then ''No categories are currently available.'' @ nl @ nl
             else found_line (length cats) @ concat (map p0_category_block cats))
          @ raw_json_section rt (JArr (map json_of_category cats)))"
proof (cases cats)
  case Nil
  then show ?thesis by (simp add: ix_categories_text_def and_then_def)
next
  case (Cons c cs)
  have "append_each ix_category_block (map json_of_category cats)
          = Inr (concat (map p0_category_block cats))"
    by (rule append_each_typed [of ix_category_block json_of_category p0_category_block,
          OF ix_category_block_typed])
  then show ?thesis
    using Cons by (simp add: ix_categories_text_def and_then_def found_line_def)
qed

lemma concat_map_includes:
  "x \<in> set xs \<Longrightarrow> \<exists>a c. concat (map f xs) = a @ f x @ c"
proof -
  assume "x \<in> set xs"
  then obtain ys zs where "xs = ys @ x # zs" by (auto simp add: in_set_conv_decomp)
  then have "concat (map f xs) = concat (map f ys) @ f x @ concat (map f zs)" by simp
  then show ?thesis by blast
qed

lemma p0_category_block_shows:
  "includes_str (p0_category_block c) (''### '' @ (if Category.name c \<noteq> [] then Category.name c else ''Unknown''))"
  "sz \<in> set (sizes c) \<Longrightarrow> includes_str (p0_category_block c) (p0_size_line sz)"
proof -
  show "includes_str (p0_category_block c) (''### '' @ (if Category.name c \<noteq> [] then Category.name c else ''Unknown''))"
  proof -
    have "p0_category_block c =
        [] @ (''### '' @ (if Category.name c \<noteq> [] then Category.name c else ''Unknown''))
          @ (nl @ nl @ (if length (sizes c) > 0
               then ''**Available Sizes:**'' @ nl @ nl @ concat (map p0_size_line (sizes c)) @ nl
               else ''No sizes configured for this category.'' @ nl @ nl))"
      by (simp add: p0_category_block_def)
    then show ?thesis unfolding includes_str_iff by blast
  qed
next
  assume m: "sz \<in> set (sizes c)"
  then have ne: "length (sizes c) > 0" by (cases "sizes c") auto
  from concat_map_includes [OF m, of p0_size_line] obtain a b where
    "concat (map p0_size_line (sizes c)) = a @ p0_size_line sz @ b" by blast
  then have "p0_category_block c =
       (''### '' @ (if Category.name c \<noteq> [] then Category.name c else ''Unknown'') @ nl @ nl
         @ ''**Available Sizes:**'' @ nl @ nl @ a) @ p0_size_line sz @ (b @ nl)"
    using ne by (simp add: p0_category_block_def)
  then show "includes_str (p0_category_block c) (p0_size_line sz)"
    unfolding includes_str_iff by blast
qed

lemma includes_str_trans:
  "includes_str s t \<Longrightarrow> includes_str t u \<Longrightarrow> includes_str s u"
  unfolding includes_str_iff by (metis append.assoc)

theorem ix_list_categories_shows_all:
  assumes "makeApiCall cfg e ''/api/category/list'' GET_init = Response r"
    and "response_ok r"
    and "JSON_parse rt (responseText r) = Inr (JArr (map json_of_category cats))"
    and "c \<in> set cats"
  shows "\<exists>t. fst (ix_list_categories rt cfg e log) = text_result t \<and>
           includes_str t (''### '' @ (if Category.name c \<noteq> [] then Category.name c else ''Unknown'')) \<and>
           (\<forall>sz \<in> set (sizes c). includes_str t (p0_size_line sz))"
proof -
  let ?t = "''## Available Image Categories'' @ nl @ nl
          @ found_line (length cats) @ concat (map p0_category_block cats)
          @ raw_json_section rt (JArr (map json_of_category cats))"
  from assms(4) have ne: "cats \<noteq> []" by auto
  have res: "fst (ix_list_categories rt cfg e log) = text_result ?t"
    using assms(1-3) ne
    by (simp add: ix_list_categories_def logged_call_def normalize_response_def and_then_def
        finish_def ix_categories_text_typed)
  from concat_map_includes [OF assms(4), of p0_category_block] obtain a b where
    "concat (map p0_category_block cats) = a @ p0_category_block c @ b" by blast
  then have "?t = (''## Available Image Categories'' @ nl @ nl @ found_line (length cats) @ a)
       @ p0_category_block c @ (b @ raw_json_section rt (JArr (map json_of_category cats)))"
    by simp
  then have blk: "includes_str ?t (p0_category_block c)"
    unfolding includes_str_iff by blast
  have "includes_str ?t (''### '' @ (if Category.name c \<noteq> [] then Category.name c else ''Unknown''))"
    by (rule includes_str_trans [OF blk p0_category_block_shows(1)])
  moreover have "\<forall>sz \<in> set (sizes c). includes_str ?t (p0_size_line sz)"
    using includes_str_trans [OF blk p0_category_block_shows(2)] by blast
  ultimately show ?thesis using res by blast
qed

lemma p0_list_categories_first_only:
  assumes "makeApiCall cfg e ''/api/size/list'' GET_init = Response r"
    and "response_ok r"
    and "json_categories trt (responseText r) = Inr (Some c # rest)"
  shows "fst (p0_list_categories trt cfg e s)
           = Some (text_result (found_line (Suc (length rest)) @ p0_category_block c))"
  using assms by (simp add: p0_list_categories_def getCategories_ok found_line_def)

lemma show_nat_2: "show_nat 2 = ''2''" by code_simp
lemma show_int_1200: "show_int 1200 = ''1200''" by code_simp
lemma show_int_800: "show_int 800 = ''800''" by code_simp

text \<open>
  C9. The claim is that the listing shows every category of the answer, not just the
  first. The handler of the variant with the cache returns from inside its loop: on the
  answer with the categories \<open>avatars\<close> and \<open>banners\<close> its text announces two categories,
  shows \<open>avatars\<close> with its sizes and ends there; neither the name \<open>banners\<close> nor the
  width of its size is in it. (The handler of the variant with the normalizer shows
  every category, as \<open>ix_list_categories_shows_all\<close> above states.)
\<close>

theorem p0_list_categories_stops_after_first:
  "fst (p0_list_categories (reads_as two_categories) local_cfg (online_env 1000) initial_state)
     = Some (text_result first_category_text) \<and>
   \<not> includes_str first_category_text ''banners'' \<and>
   \<not> includes_str first_category_text ''320''"
proof -
  have h1: "makeApiCall local_cfg (online_env 1000) ''/api/size/list'' GET_init
     = Response (plain_response 200 ''(category list)'')"
    by (simp add: makeApiCall_def online_env_def answering_env_def)
  have h2: "response_ok (plain_response 200 ''(category list)'')"
    by (simp add: response_ok_def plain_response_def)
  have h3: "json_categories (reads_as two_categories) (responseText (plain_response 200 ''(category list)''))
     = Inr (Some \<lparr>Category.name = ''avatars'', sizes = [thumb, large]\<rparr>
            # [Some \<lparr>Category.name = ''banners'', sizes = [thumb_wide]\<rparr>])"
    by (simp add: reads_as_def two_categories_def)
  have n: "Suc (length [Some \<lparr>Category.name = ''banners'', sizes = [thumb_wide]\<rparr>]) = 2"
    by simp
  have "found_line 2 @ p0_category_block \<lparr>Category.name = ''avatars'', sizes = [thumb, large]\<rparr>
        = first_category_text"
    by (simp add: found_line_def p0_category_block_def p0_size_line_def thumb_def large_def
        first_category_text_def js_int_def show_nat_2 show_int_100 show_int_1200 show_int_800)
  with p0_list_categories_first_only [OF h1 h2 h3, of initial_state, unfolded n]
  have "fst (p0_list_categories (reads_as two_categories) local_cfg (online_env 1000) initial_state)
     = Some (text_result first_category_text)" by simp
  moreover have "\<not> includes_str first_category_text ''banners''"
    by (simp add: first_category_text_def)
  moreover have "\<not> includes_str first_category_text ''320''"
    by (simp add: first_category_text_def)
  ultimately show ?thesis by blast
qed

section \<open>Properties of the handlers' failure results\<close>

lemma is_error_value_error [simp]: "is_error_value (error_value msg)"
  by (simp add: is_error_value_def error_value_def)

lemma finish_Inl [simp]: "finish (Inl err) = error_result err"
  by (simp add: finish_def)

lemma and_then_Inl [simp]: "and_then (Inl err) f = Inl err"
  by (simp add: and_then_def)

lemma normalize_failed:
  "failed_outcome (\<lambda>b. isl (JSON_parse rt b)) (Response r) \<Longrightarrow>
     \<exists>err. normalize_response rt failure r = Inl err"
  by (auto simp add: failed_outcome_def normalize_response_def isl_def split: sum.splits)

lemma p1_read_failed:
  "failed_outcome (\<lambda>b. isl (JSON_parse rt b)) (Response r) \<Longrightarrow>
     \<exists>err. p1_read rt failure r = Inl err"
  by (auto simp add: failed_outcome_def p1_read_def isl_def)

lemma normalize_failed_result:
  assumes "failed_outcome (\<lambda>b. isl (JSON_parse rt b)) (Response r)"
  shows "is_error_result (finish (and_then (normalize_response rt failure r) f))"
proof -
  from normalize_failed [OF assms] obtain err where "normalize_response rt failure r = Inl err"
    by blast
  then show ?thesis by simp
qed

lemma p1_read_failed_result:
  assumes "failed_outcome (\<lambda>b. isl (JSON_parse rt b)) (Response r)"
  shows "is_error_result (finish (and_then (p1_read rt failure r) f))"
proof -
  from p1_read_failed [OF assms] obtain err where "p1_read rt failure r = Inl err"
    by blast
  then show ?thesis by simp
qed

lemma ix_get_image_metadata_failed:
  "failed_outcome (\<lambda>b. isl (JSON_parse rt b)) (makeApiCall cfg e (''/api/image/'' @ uuid) GET_init) \<Longrightarrow>
     is_error_result (fst (ix_get_image_metadata rt cfg e log uuid))"
  by (cases "makeApiCall cfg e (''/api/image/'' @ uuid) GET_init")
     (auto simp add: ix_get_image_metadata_def logged_call_def intro: normalize_failed_result)

lemma ix_list_categories_failed:
  "failed_outcome (\<lambda>b. isl (JSON_parse rt b)) (makeApiCall cfg e ''/api/category/list'' GET_init) \<Longrightarrow>
     is_error_result (fst (ix_list_categories rt cfg e log))"
  by (cases "makeApiCall cfg e ''/api/category/list'' GET_init")
     (auto simp add: ix_list_categories_def logged_call_def intro: normalize_failed_result)

lemma ix_get_resized_image_failed:
  "failed_outcome (\<lambda>b. isl (JSON_parse rt b))
      (makeApiCall cfg e (''/api/image/s/'' @ uuid @ ''/'' @ sz) GET_init) \<Longrightarrow>
     is_error_result (fst (ix_get_resized_image rt cfg e log uuid sz))"
  by (cases "makeApiCall cfg e (''/api/image/s/'' @ uuid @ ''/'' @ sz) GET_init")
     (auto simp add: ix_get_resized_image_def logged_call_def intro: normalize_failed_result)

lemma ix_upload_failed:
  "failed_upload (\<lambda>b. isl (JSON_parse rt b)) cfg e cat literal filename \<Longrightarrow>
     is_error_result (fst (ix_upload literal rt cfg e log cat filename))"
  by (auto simp add: failed_upload_def ix_upload_def logged_call_def
      split: sum.splits fetch_outcome.splits intro: normalize_failed_result)

lemma p1_get_image_metadata_failed:
  "failed_outcome (\<lambda>b. isl (JSON_parse rt b)) (makeApiCall cfg e (''/api/image/'' @ uuid) GET_init) \<Longrightarrow>
     is_error_result (fst (p1_get_image_metadata rt cfg e log uuid))"
  by (cases "makeApiCall cfg e (''/api/image/'' @ uuid) GET_init")
     (auto simp add: p1_get_image_metadata_def logged_call_def intro: p1_read_failed_result)

lemma p1_get_resized_image_failed:
  "failed_outcome (\<lambda>b. isl (JSON_parse rt b))
      (makeApiCall cfg e (''/api/image/s/'' @ uuid @ ''/'' @ sz) GET_init) \<Longrightarrow>
     is_error_value (fst (p1_get_resized_image rt cfg e log uuid sz))"
  by (cases "makeApiCall cfg e (''/api/image/s/'' @ uuid @ ''/'' @ sz) GET_init")
     (auto simp add: p1_get_resized_image_def logged_call_def dest!: p1_read_failed [where failure = "''Failed to get resized image URL''"])

lemma p1_upload_failed:
  "failed_upload (\<lambda>b. isl (JSON_parse rt b)) cfg e cat literal filename \<Longrightarrow>
     is_error_result (fst (p1_upload literal rt cfg e log cat filename))"
  by (auto simp add: failed_upload_def p1_upload_def logged_call_def
      split: sum.splits fetch_outcome.splits intro: p1_read_failed_result)

lemma p0_get_image_metadata_failed:
  "failed_outcome (\<lambda>b. isl (json_metadata trt b)) (makeApiCall cfg e (''/api/image/'' @ uuid) GET_init) \<Longrightarrow>
     is_error_result (fst (p0_get_image_metadata trt cfg e s uuid))"
  by (auto simp add: failed_outcome_def p0_get_image_metadata_def p0_call_def isl_def
      split: fetch_outcome.splits)

lemma p0_transcode_image_failed:
  "failed_outcome (\<lambda>b. isl (json_metadata trt b))
      (makeApiCall cfg e (''/api/image/'' @ uuid @ ''/transcode'') (POST_init None)) \<Longrightarrow>
     is_error_result (fst (p0_transcode_image trt cfg e s uuid))"
  by (auto simp add: failed_outcome_def p0_transcode_image_def p0_call_def isl_def
      split: fetch_outcome.splits)

lemma p0_get_resized_image_failed:
  "failed_outcome (\<lambda>b. isl (json_url trt b))
      (makeApiCall cfg e (''/api/image/s/'' @ uuid @ ''/'' @ sz) GET_init) \<Longrightarrow>
     is_error_result (fst (p0_get_resized_image trt cfg e s uuid sz))"
  by (auto simp add: failed_outcome_def p0_get_resized_image_def p0_call_def isl_def
      split: fetch_outcome.splits)

lemma uploadImage_failed:
  "failed_upload (\<lambda>b. isl (json_metadata trt b)) cfg e cat (show_bool resize) filename \<Longrightarrow>
     isl (fst (uploadImage trt cfg e s cat filename resize))"
  by (auto simp add: failed_upload_def failed_outcome_def uploadImage_def p0_call_def isl_def
      split: sum.splits fetch_outcome.splits)

lemma p0_upload_and_resize_image_failed:
  "failed_upload (\<lambda>b. isl (json_metadata trt b)) cfg e cat ''true'' filename \<Longrightarrow>
     is_error_result (fst (p0_upload_and_resize_image trt cfg e s cat filename))"
  using uploadImage_failed [of trt cfg e cat True filename s]
  by (auto simp add: p0_upload_and_resize_image_def show_bool_def isl_def split: prod.splits sum.splits)

lemma p0_upload_image_failed:
  "failed_upload (\<lambda>b. isl (json_metadata trt b)) cfg e cat ''false'' filename \<Longrightarrow>
     is_error_result (fst (p0_upload_image trt cfg e s cat filename))"
  using uploadImage_failed [of trt cfg e cat False filename s]
  by (auto simp add: p0_upload_image_def show_bool_def isl_def split: prod.splits sum.splits)

lemma p0_list_categories_failed:
  "failed_outcome (\<lambda>b. isl (json_categories trt b)) (makeApiCall cfg e ''/api/size/list'' GET_init) \<Longrightarrow>
     fst (p0_list_categories trt cfg e s) = Some (text_result ''No categories are currently available.'')"
proof -
  assume "failed_outcome (\<lambda>b. isl (json_categories trt b)) (makeApiCall cfg e ''/api/size/list'' GET_init)"
  then have "refresh_failed trt cfg e" by (simp add: refresh_failed_def failed_outcome_def)
  then show ?thesis by (simp add: p0_list_categories_def getCategories_failed)
qed

lemma getSizeCache_failed:
  "refresh_failed rt cfg e \<Longrightarrow> fst (getSizeCache rt cfg e s) = sizeCache s"
  by (simp add: getSizeCache_def Let_def getCategories_failed)

lemma build_refresh_failed:
  "refresh_failed rt cfg e \<Longrightarrow>
     fst (buildImageMetadataResponseText rt cfg e s metadata label)
       = metadata_text (sizeCache s) metadata label"
  using getSizeCache_failed [of rt cfg e s]
  by (cases "getSizeCache rt cfg e s")
     (auto simp add: buildImageMetadataResponseText_def metadata_text_def Let_def
       split: option.splits)

lemma p0_get_image_metadata_refresh_failed:
  assumes "makeApiCall cfg e (''/api/image/'' @ uuid) GET_init = Response r \<and> response_ok r \<and>
           json_metadata trt (responseText r) = Inr metadata \<and> refresh_failed trt cfg e"
  shows "fst (p0_get_image_metadata trt cfg e s uuid)
           = text_result (metadata_text (sizeCache s) metadata ''Image Metadata'')"
proof -
  let ?s1 = "s\<lparr>calls := calls s @ [(''/api/image/'' @ uuid, GET_init)]\<rparr>"
  from assms have f: "refresh_failed trt cfg e" by simp
  from build_refresh_failed [OF f, of ?s1 metadata "''Image Metadata''"] assms
  show ?thesis
    by (simp add: p0_get_image_metadata_def p0_call_def case_prod_beta)
qed

lemma p0_transcode_image_refresh_failed:
  assumes "makeApiCall cfg e (''/api/image/'' @ uuid @ ''/transcode'') (POST_init None) = Response r \<and>
           response_ok r \<and> json_metadata trt (responseText r) = Inr metadata \<and>
           refresh_failed trt cfg e"
  shows "fst (p0_transcode_image trt cfg e s uuid)
           = text_result (metadata_text (sizeCache s) metadata ''Image Transcode Result'')"
proof -
  let ?s1 = "s\<lparr>calls := calls s @ [(''/api/image/'' @ uuid @ ''/transcode'', POST_init None)]\<rparr>"
  from assms have f: "refresh_failed trt cfg e" by simp
  from build_refresh_failed [OF f, of ?s1 metadata "''Image Transcode Result''"] assms
  show ?thesis
    by (simp add: p0_transcode_image_def p0_call_def case_prod_beta)
qed

lemma uploadImage_ok:
  assumes "readFile e filename = Inr fileBuffer"
    and "makeApiCall cfg e (''/api/image/'' @ cat @ ''?forceImmediateResize='' @ show_bool resize)
           (POST_init (Some (upload_form fileBuffer filename))) = Response r"
    and "response_ok r" and "json_metadata trt (responseText r) = Inr metadata"
    and "id' metadata \<noteq> []" and "category metadata \<noteq> []"
  shows "uploadImage trt cfg e s cat filename resize
           = (Inr metadata,
              s\<lparr>calls := calls s @ [(''/api/image/'' @ cat @ ''?forceImmediateResize='' @ show_bool resize,
                                       POST_init (Some (upload_form fileBuffer filename)))]\<rparr>)"
  using assms by (simp add: uploadImage_def p0_call_def)

lemma p0_upload_and_resize_image_refresh_failed:
  assumes "readFile e filename = Inr fileBuffer \<and>
           makeApiCall cfg e (''/api/image/'' @ cat @ ''?forceImmediateResize=true'')
             (POST_init (Some (upload_form fileBuffer filename))) = Response r \<and>
           response_ok r \<and> json_metadata trt (responseText r) = Inr metadata \<and>
           id' metadata \<noteq> [] \<and> category metadata \<noteq> [] \<and> refresh_failed trt cfg e"
  shows "fst (p0_upload_and_resize_image trt cfg e s cat filename)
           = text_result (metadata_text (sizeCache s) metadata ''Image uploaded and resized'')"
proof -
  from assms have a: "readFile e filename = Inr fileBuffer"
    and b: "makeApiCall cfg e (''/api/image/'' @ cat @ ''?forceImmediateResize='' @ show_bool True)
           (POST_init (Some (upload_form fileBuffer filename))) = Response r"
    and c: "response_ok r" and d: "json_metadata trt (responseText r) = Inr metadata"
    and i: "id' metadata \<noteq> []" and k: "category metadata \<noteq> []"
    and f: "refresh_failed trt cfg e"
    by (simp_all add: show_bool_def)
  note u = uploadImage_ok [OF a b c d i k, of s]
  show ?thesis
    using build_refresh_failed [OF f, where label = "''Image uploaded and resized''"]
    by (simp add: p0_upload_and_resize_image_def u case_prod_beta)
qed

lemma p0_upload_image_refresh_failed:
  assumes "readFile e filename = Inr fileBuffer \<and>
           makeApiCall cfg e (''/api/image/'' @ cat @ ''?forceImmediateResize=false'')
             (POST_init (Some (upload_form fileBuffer filename))) = Response r \<and>
           response_ok r \<and> json_metadata trt (responseText r) = Inr metadata \<and>
           id' metadata \<noteq> [] \<and> category metadata \<noteq> [] \<and> refresh_failed trt cfg e"
  shows "fst (p0_upload_image trt cfg e s cat filename)
           = text_result (metadata_text (sizeCache s) metadata ''Image uploaded'')"
proof -
  from assms have a: "readFile e filename = Inr fileBuffer"
    and b: "makeApiCall cfg e (''/api/image/'' @ cat @ ''?forceImmediateResize='' @ show_bool False)
           (POST_init (Some (upload_form fileBuffer filename))) = Response r"
    and c: "response_ok r" and d: "json_metadata trt (responseText r) = Inr metadata"
    and i: "id' metadata \<noteq> []" and k: "category metadata \<noteq> []"
    and f: "refresh_failed trt cfg e"
    by (simp_all add: show_bool_def)
  note u = uploadImage_ok [OF a b c d i k, of s]
  show ?thesis
    using build_refresh_failed [OF f, where label = "''Image uploaded''"]
    by (simp add: p0_upload_image_def u case_prod_beta)
qed

lemma text_result_not_error: "\<not> is_error_result (text_result t)"
  by (simp add: is_error_result_def text_result_def)

text \<open>
  C10 (as amended). In all three variants, every handler but \<open>list_categories\<close> of the
  variant with the cache returns, on each failure of its own request (the fetch rejects,
  a status outside 2xx, a success status with a body that does not parse) and, for the
  uploads, on a file that cannot be read, a result that is a single text block beginning
  \<open>Error: \<close> with \<open>isError\<close> set to true. The failures of the request for the list of
  sizes, which the variant with the cache makes through \<open>getCategories\<close>, are swallowed
  instead: \<open>list_categories\<close> of that variant returns on them the plain text
  \<open>No categories are currently available.\<close>, and \<open>get_image_metadata\<close>,
  \<open>transcode_image\<close> and the two uploads of that variant, whose own request succeeded
  and which then fail to refresh the cache, return their usual text, with the sizes read
  from the cache as it was, and no \<open>isError\<close>.
\<close>

theorem handlers_report_failures:
  "(failed_outcome (\<lambda>b. isl (JSON_parse rt b)) (makeApiCall cfg e (''/api/image/'' @ uuid) GET_init) \<longrightarrow>
      is_error_result (fst (ix_get_image_metadata rt cfg e log uuid)) \<and>
      is_error_result (fst (p1_get_image_metadata rt cfg e log uuid))) \<and>
   (failed_outcome (\<lambda>b. isl (json_metadata trt b)) (makeApiCall cfg e (''/api/image/'' @ uuid) GET_init) \<longrightarrow>
      is_error_result (fst (p0_get_image_metadata trt cfg e s uuid))) \<and>
   (failed_outcome (\<lambda>b. isl (json_metadata trt b))
      (makeApiCall cfg e (''/api/image/'' @ uuid @ ''/transcode'') (POST_init None)) \<longrightarrow>
      is_error_result (fst (p0_transcode_image trt cfg e s uuid))) \<and>
   (failed_outcome (\<lambda>b. isl (JSON_parse rt b)) (makeApiCall cfg e ''/api/category/list'' GET_init) \<longrightarrow>
      is_error_result (fst (ix_list_categories rt cfg e log))) \<and>
   (failed_outcome (\<lambda>b. isl (JSON_parse rt b))
      (makeApiCall cfg e (''/api/image/s/'' @ uuid @ ''/'' @ sz) GET_init) \<longrightarrow>
      is_error_result (fst (ix_get_resized_image rt cfg e log uuid sz)) \<and>
      is_error_value (fst (p1_get_resized_image rt cfg e log uuid sz))) \<and>
   (failed_outcome (\<lambda>b. isl (json_url trt b))
      (makeApiCall cfg e (''/api/image/s/'' @ uuid @ ''/'' @ sz) GET_init) \<longrightarrow>
      is_error_result (fst (p0_get_resized_image trt cfg e s uuid sz))) \<and>
   (failed_upload (\<lambda>b. isl (JSON_parse rt b)) cfg e cat ''true'' filename \<longrightarrow>
      is_error_result (fst (ix_upload_and_resize_image rt cfg e log cat filename)) \<and>
      is_error_result (fst (p1_upload_and_resize_image rt cfg e log cat filename))) \<and>
   (failed_upload (\<lambda>b. isl (JSON_parse rt b)) cfg e cat ''false'' filename \<longrightarrow>
      is_error_result (fst (ix_upload_image rt cfg e log cat filename)) \<and>
      is_error_result (fst (p1_upload_image rt cfg e log cat filename))) \<and>
   (failed_upload (\<lambda>b. isl (json_metadata trt b)) cfg e cat ''true'' filename \<longrightarrow>
      is_error_result (fst (p0_upload_and_resize_image trt cfg e s cat filename))) \<and>
   (failed_upload (\<lambda>b. isl (json_metadata trt b)) cfg e cat ''false'' filename \<longrightarrow>
      is_error_result (fst (p0_upload_image trt cfg e s cat filename))) \<and>
   (failed_outcome (\<lambda>b. isl (json_categories trt b)) (makeApiCall cfg e ''/api/size/list'' GET_init) \<longrightarrow>
      fst (p0_list_categories trt cfg e s)
        = Some (text_result ''No categories are currently available.'')) \<and>
   (makeApiCall cfg e (''/api/image/'' @ uuid) GET_init = Response r \<and> response_ok r \<and>
    json_metadata trt (responseText r) = Inr metadata \<and> refresh_failed trt cfg e \<longrightarrow>
      fst (p0_get_image_metadata trt cfg e s uuid)
        = text_result (metadata_text (sizeCache s) metadata ''Image Metadata'')) \<and>
   (makeApiCall cfg e (''/api/image/'' @ uuid @ ''/transcode'') (POST_init None) = Response r \<and>
    response_ok r \<and> json_metadata trt (responseText r) = Inr metadata \<and> refresh_failed trt cfg e \<longrightarrow>
      fst (p0_transcode_image trt cfg e s uuid)
        = text_result (metadata_text (sizeCache s) metadata ''Image Transcode Result'')) \<and>
   (readFile e filename = Inr fileBuffer \<and>
    makeApiCall cfg e (''/api/image/'' @ cat @ ''?forceImmediateResize=true'')
      (POST_init (Some (upload_form fileBuffer filename))) = Response r \<and>
    response_ok r \<and> json_metadata trt (responseText r) = Inr metadata \<and>
    id' metadata \<noteq> [] \<and> category metadata \<noteq> [] \<and> refresh_failed trt cfg e \<longrightarrow>
      fst (p0_upload_and_resize_image trt cfg e s cat filename)
        = text_result (metadata_text (sizeCache s) metadata ''Image uploaded and resized'')) \<and>
   (readFile e filename = Inr fileBuffer \<and>
    makeApiCall cfg e (''/api/image/'' @ cat @ ''?forceImmediateResize=false'')
      (POST_init (Some (upload_form fileBuffer filename))) = Response r \<and>
    response_ok r \<and> json_metadata trt (responseText r) = Inr metadata \<and>
    id' metadata \<noteq> [] \<and> category metadata \<noteq> [] \<and> refresh_failed trt cfg e \<longrightarrow>
      fst (p0_upload_image trt cfg e s cat filename)
        = text_result (metadata_text (sizeCache s) metadata ''Image uploaded'')) \<and>
   \<not> is_error_result (text_result t) \<and> isError (text_result t) = None"
proof -
  have r1: "makeApiCall cfg e (''/api/image/'' @ uuid) GET_init = Response r \<and> response_ok r \<and>
    json_metadata trt (responseText r) = Inr metadata \<and> refresh_failed trt cfg e \<longrightarrow>
      fst (p0_get_image_metadata trt cfg e s uuid)
        = text_result (metadata_text (sizeCache s) metadata ''Image Metadata'')"
    by (rule impI) (rule p0_get_image_metadata_refresh_failed)
  have r2: "makeApiCall cfg e (''/api/image/'' @ uuid @ ''/transcode'') (POST_init None) = Response r \<and>
    response_ok r \<and> json_metadata trt (responseText r) = Inr metadata \<and> refresh_failed trt cfg e \<longrightarrow>
      fst (p0_transcode_image trt cfg e s uuid)
        = text_result (metadata_text (sizeCache s) metadata ''Image Transcode Result'')"
    by (rule impI) (rule p0_transcode_image_refresh_failed)
  have r3: "readFile e filename = Inr fileBuffer \<and>
    makeApiCall cfg e (''/api/image/'' @ cat @ ''?forceImmediateResize=true'')
      (POST_init (Some (upload_form fileBuffer filename))) = Response r \<and>
    response_ok r \<and> json_metadata trt (responseText r) = Inr metadata \<and>
    id' metadata \<noteq> [] \<and> category metadata \<noteq> [] \<and> refresh_failed trt cfg e \<longrightarrow>
      fst (p0_upload_and_resize_image trt cfg e s cat filename)
        = text_result (metadata_text (sizeCache s) metadata ''Image uploaded and resized'')"
    by (rule impI) (rule p0_upload_and_resize_image_refresh_failed)
  have r4: "readFile e filename = Inr fileBuffer \<and>
    makeApiCall cfg e (''/api/image/'' @ cat @ ''?forceImmediateResize=false'')
      (POST_init (Some (upload_form fileBuffer filename))) = Response r \<and>
    response_ok r \<and> json_metadata trt (responseText r) = Inr metadata \<and>
    id' metadata \<noteq> [] \<and> category metadata \<noteq> [] \<and> refresh_failed trt cfg e \<longrightarrow>
      fst (p0_upload_image trt cfg e s cat filename)
        = text_result (metadata_text (sizeCache s) metadata ''Image uploaded'')"
    by (rule impI) (rule p0_upload_image_refresh_failed)
  have r5: "isError (text_result t) = None" by (simp add: text_result_def)
  show ?thesis
    by (intro conjI r1 r2 r3 r4 r5 text_result_not_error;
        intro impI conjI ix_get_image_metadata_failed p1_get_image_metadata_failed
      p0_get_image_metadata_failed p0_transcode_image_failed ix_list_categories_failed
      ix_get_resized_image_failed p1_get_resized_image_failed p0_get_resized_image_failed
      ix_upload_failed [of rt cfg e cat "''true''" filename log, folded ix_upload_and_resize_image_def]
      ix_upload_failed [of rt cfg e cat "''false''" filename log, folded ix_upload_image_def]
      p1_upload_failed [of rt cfg e cat "''true''" filename log, folded p1_upload_and_resize_image_def]
      p1_upload_failed [of rt cfg e cat "''false''" filename log, folded p1_upload_image_def]
      p0_upload_and_resize_image_failed p0_upload_image_failed p0_list_categories_failed)
qed

text \<open>
  Every handler while the service answers 503; and the four handlers of the variant with
  the cache while the service answers their own request and rejects the one for the list
  of sizes: they return their text, its size without dimensions.
\<close>

theorem handlers_report_failures_witness:
  "failed_outcome (\<lambda>b. isl (JSON_parse sample_runtime b))
     (makeApiCall local_cfg (disk_env 503 ''Service Unavailable'') (''/api/image/'' @ ''42'') GET_init) \<and>
   failed_outcome (\<lambda>b. isl (json_metadata (reads_as []) b))
     (makeApiCall local_cfg (disk_env 503 ''Service Unavailable'') (''/api/image/'' @ ''42'') GET_init) \<and>
   failed_outcome (\<lambda>b. isl (json_metadata (reads_as []) b))
     (makeApiCall local_cfg (disk_env 503 ''Service Unavailable'') (''/api/image/'' @ ''42'' @ ''/transcode'')
        (POST_init None)) \<and>
   failed_outcome (\<lambda>b. isl (JSON_parse sample_runtime b))
     (makeApiCall local_cfg (disk_env 503 ''Service Unavailable'') ''/api/category/list'' GET_init) \<and>
   failed_outcome (\<lambda>b. isl (JSON_parse sample_runtime b))
     (makeApiCall local_cfg (disk_env 503 ''Service Unavailable'')
        (''/api/image/s/'' @ ''42'' @ ''/'' @ ''thumb'') GET_init) \<and>
   failed_outcome (\<lambda>b. isl (json_url (reads_as []) b))
     (makeApiCall local_cfg (disk_env 503 ''Service Unavailable'')
        (''/api/image/s/'' @ ''42'' @ ''/'' @ ''thumb'') GET_init) \<and>
   failed_upload (\<lambda>b. isl (JSON_parse sample_runtime b)) local_cfg (disk_env 503 ''Service Unavailable'')
     ''avatars'' ''true'' ''/tmp/cat.png'' \<and>
   failed_upload (\<lambda>b. isl (JSON_parse sample_runtime b)) local_cfg (disk_env 503 ''Service Unavailable'')
     ''avatars'' ''false'' ''/tmp/cat.png'' \<and>
   failed_upload (\<lambda>b. isl (json_metadata (reads_as []) b)) local_cfg (disk_env 503 ''Service Unavailable'')
     ''avatars'' ''true'' ''/tmp/cat.png'' \<and>
   failed_upload (\<lambda>b. isl (json_metadata (reads_as []) b)) local_cfg (disk_env 503 ''Service Unavailable'')
     ''avatars'' ''false'' ''/tmp/cat.png'' \<and>
   failed_outcome (\<lambda>b. isl (json_categories (reads_as []) b))
     (makeApiCall local_cfg (disk_env 503 ''Service Unavailable'') ''/api/size/list'' GET_init) \<and>
   is_error_result (fst (ix_get_image_metadata sample_runtime local_cfg
      (disk_env 503 ''Service Unavailable'') [] ''42'')) \<and>
   is_error_result (fst (p1_get_image_metadata sample_runtime local_cfg
      (disk_env 503 ''Service Unavailable'') [] ''42'')) \<and>
   is_error_result (fst (p0_get_image_metadata (reads_as []) local_cfg
      (disk_env 503 ''Service Unavailable'') initial_state ''42'')) \<and>
   is_error_result (fst (p0_transcode_image (reads_as []) local_cfg
      (disk_env 503 ''Service Unavailable'') initial_state ''42'')) \<and>
   is_error_result (fst (ix_list_categories sample_runtime local_cfg
      (disk_env 503 ''Service Unavailable'') [])) \<and>
   is_error_result (fst (ix_get_resized_image sample_runtime local_cfg
      (disk_env 503 ''Service Unavailable'') [] ''42'' ''thumb'')) \<and>
   is_error_value (fst (p1_get_resized_image sample_runtime local_cfg
      (disk_env 503 ''Service Unavailable'') [] ''42'' ''thumb'')) \<and>
   is_error_result (fst (p0_get_resized_image (reads_as []) local_cfg
      (disk_env 503 ''Service Unavailable'') initial_state ''42'' ''thumb'')) \<and>
   is_error_result (fst (ix_upload_and_resize_image sample_runtime local_cfg
      (disk_env 503 ''Service Unavailable'') [] ''avatars'' ''/tmp/cat.png'')) \<and>
   is_error_result (fst (p1_upload_and_resize_image sample_runtime local_cfg
      (disk_env 503 ''Service Unavailable'') [] ''avatars'' ''/tmp/cat.png'')) \<and>
   is_error_result (fst (ix_upload_image sample_runtime local_cfg
      (disk_env 503 ''Service Unavailable'') [] ''avatars'' ''/tmp/cat.png'')) \<and>
   is_error_result (fst (p1_upload_image sample_runtime local_cfg
      (disk_env 503 ''Service Unavailable'') [] ''avatars'' ''/tmp/cat.png'')) \<and>
   is_error_result (fst (p0_upload_and_resize_image (reads_as []) local_cfg
      (disk_env 503 ''Service Unavailable'') initial_state ''avatars'' ''/tmp/cat.png'')) \<and>
   is_error_result (fst (p0_upload_image (reads_as []) local_cfg
      (disk_env 503 ''Service Unavailable'') initial_state ''avatars'' ''/tmp/cat.png'')) \<and>
   fst (p0_list_categories (reads_as []) local_cfg (disk_env 503 ''Service Unavailable'') initial_state)
     = Some (text_result ''No categories are currently available.'') \<and>
   refresh_failed upload_runtime local_cfg refresh_down_env \<and>
   makeApiCall local_cfg refresh_down_env (''/api/image/'' @ ''42'') GET_init
     = Response (plain_response 200 ''{}'') \<and>
   makeApiCall local_cfg refresh_down_env (''/api/image/'' @ ''42'' @ ''/transcode'') (POST_init None)
     = Response (plain_response 200 ''{}'') \<and>
   readFile refresh_down_env ''/tmp/cat.png'' = Inr [137, 80, 78, 71] \<and>
   makeApiCall local_cfg refresh_down_env (''/api/image/'' @ ''avatars'' @ ''?forceImmediateResize=true'')
       (POST_init (Some (upload_form [137, 80, 78, 71] ''/tmp/cat.png'')))
     = Response (plain_response 200 ''{}'') \<and>
   makeApiCall local_cfg refresh_down_env (''/api/image/'' @ ''avatars'' @ ''?forceImmediateResize=false'')
       (POST_init (Some (upload_form [137, 80, 78, 71] ''/tmp/cat.png'')))
     = Response (plain_response 200 ''{}'') \<and>
   response_ok (plain_response 200 ''{}'') \<and>
   json_metadata upload_runtime (responseText (plain_response 200 ''{}'')) = Inr sample_metadata \<and>
   id' sample_metadata \<noteq> [] \<and> category sample_metadata \<noteq> [] \<and>
   fst (p0_get_image_metadata upload_runtime local_cfg refresh_down_env initial_state ''42'')
     = text_result (unsized_text ''Image Metadata'') \<and>
   fst (p0_transcode_image upload_runtime local_cfg refresh_down_env initial_state ''42'')
     = text_result (unsized_text ''Image Transcode Result'') \<and>
   fst (p0_upload_and_resize_image upload_runtime local_cfg refresh_down_env initial_state
          ''avatars'' ''/tmp/cat.png'')
     = text_result (unsized_text ''Image uploaded and resized'') \<and>
   fst (p0_upload_image upload_runtime local_cfg refresh_down_env initial_state ''avatars'' ''/tmp/cat.png'')
     = text_result (unsized_text ''Image uploaded'') \<and>
   isError (text_result (unsized_text ''Image Metadata'')) = None"
proof -
  let ?e = "disk_env 503 ''Service Unavailable''"
  have o: "failed_outcome unparsable (makeApiCall local_cfg ?e endpoint options)"
    for unparsable endpoint options
    by (simp add: failed_outcome_def makeApiCall_def disk_env_def plain_response_def response_ok_def)
  have f: "readFile ?e ''/tmp/cat.png'' = Inr [137, 80, 78, 71]"
    by (simp add: disk_env_def)
  have u: "failed_upload unparsable local_cfg ?e ''avatars'' literal ''/tmp/cat.png''"
    for unparsable literal
    by (simp add: failed_upload_def f o)
  note T = handlers_report_failures [where rt = sample_runtime and trt = "reads_as []" and cfg = local_cfg
      and e = ?e and log = "[]" and s = initial_state and uuid = "''42''" and sz = "''thumb''"
      and cat = "''avatars''" and filename = "''/tmp/cat.png''"]
  have down: "is_error_result (fst (ix_get_image_metadata sample_runtime local_cfg ?e [] ''42'')) \<and>
   is_error_result (fst (p1_get_image_metadata sample_runtime local_cfg ?e [] ''42'')) \<and>
   is_error_result (fst (p0_get_image_metadata (reads_as []) local_cfg ?e initial_state ''42'')) \<and>
   is_error_result (fst (p0_transcode_image (reads_as []) local_cfg ?e initial_state ''42'')) \<and>
   is_error_result (fst (ix_list_categories sample_runtime local_cfg ?e [])) \<and>
   is_error_result (fst (ix_get_resized_image sample_runtime local_cfg ?e [] ''42'' ''thumb'')) \<and>
   is_error_value (fst (p1_get_resized_image sample_runtime local_cfg ?e [] ''42'' ''thumb'')) \<and>
   is_error_result (fst (p0_get_resized_image (reads_as []) local_cfg ?e initial_state ''42'' ''thumb'')) \<and>
   is_error_result (fst (ix_upload_and_resize_image sample_runtime local_cfg ?e [] ''avatars'' ''/tmp/cat.png'')) \<and>
   is_error_result (fst (p1_upload_and_resize_image sample_runtime local_cfg ?e [] ''avatars'' ''/tmp/cat.png'')) \<and>
   is_error_result (fst (ix_upload_image sample_runtime local_cfg ?e [] ''avatars'' ''/tmp/cat.png'')) \<and>
   is_error_result (fst (p1_upload_image sample_runtime local_cfg ?e [] ''avatars'' ''/tmp/cat.png'')) \<and>
   is_error_result (fst (p0_upload_and_resize_image (reads_as []) local_cfg ?e initial_state
      ''avatars'' ''/tmp/cat.png'')) \<and>
   is_error_result (fst (p0_upload_image (reads_as []) local_cfg ?e initial_state ''avatars'' ''/tmp/cat.png'')) \<and>
   fst (p0_list_categories (reads_as []) local_cfg ?e initial_state)
     = Some (text_result ''No categories are currently available.'')"
    using T by (simp add: o u)
  let ?d = refresh_down_env
  let ?r = "plain_response 200 ''{}''"
  have rf: "refresh_failed upload_runtime local_cfg ?d"
    by (simp add: refresh_failed_def makeApiCall_def refresh_down_env_def local_cfg_def)
  have c: "makeApiCall local_cfg ?d endpoint options = Response ?r"
    if "endpoint \<noteq> ''/api/size/list''" for endpoint options
    using that by (simp add: makeApiCall_def refresh_down_env_def local_cfg_def)
  have g: "readFile ?d ''/tmp/cat.png'' = Inr [137, 80, 78, 71]"
    by (simp add: refresh_down_env_def)
  have ok: "response_ok ?r" by (simp add: response_ok_def plain_response_def)
  have md: "json_metadata upload_runtime (responseText ?r) = Inr sample_metadata"
    by (simp add: upload_runtime_def)
  have ne: "id' sample_metadata \<noteq> []" "category sample_metadata \<noteq> []"
    by (simp_all add: sample_metadata_def)
  have mt: "metadata_text (sizeCache initial_state) sample_metadata label = unsized_text label"
    for label
    by (simp add: metadata_text_def unsized_text_def sample_metadata_def initial_state_def
        resized_line_def)
  note U = handlers_report_failures [where trt = upload_runtime and cfg = local_cfg
      and e = ?d and s = initial_state and uuid = "''42''" and cat = "''avatars''"
      and filename = "''/tmp/cat.png''" and fileBuffer = "[137, 80, 78, 71]" and r = ?r
      and metadata = sample_metadata and t = "unsized_text ''Image Metadata''", unfolded mt,
      THEN conjunct2, THEN conjunct2, THEN conjunct2, THEN conjunct2, THEN conjunct2,
      THEN conjunct2, THEN conjunct2, THEN conjunct2, THEN conjunct2, THEN conjunct2,
      THEN conjunct2]
  have up: "fst (p0_get_image_metadata upload_runtime local_cfg ?d initial_state ''42'')
     = text_result (unsized_text ''Image Metadata'') \<and>
   fst (p0_transcode_image upload_runtime local_cfg ?d initial_state ''42'')
     = text_result (unsized_text ''Image Transcode Result'') \<and>
   fst (p0_upload_and_resize_image upload_runtime local_cfg ?d initial_state ''avatars'' ''/tmp/cat.png'')
     = text_result (unsized_text ''Image uploaded and resized'') \<and>
   fst (p0_upload_image upload_runtime local_cfg ?d initial_state ''avatars'' ''/tmp/cat.png'')
     = text_result (unsized_text ''Image uploaded'') \<and>
   isError (text_result (unsized_text ''Image Metadata'')) = None"
    using U by (simp add: rf c g ok md ne)
  show ?thesis
    using down up by (simp add: o u rf c g ok md ne)
qed

text \<open>
  With the network down, \<open>list_categories\<close> of the variant with the cache returns a
  text that does not begin \<open>Error: \<close> and carries no \<open>isError\<close>.
\<close>

theorem list_categories_failure_not_flagged:
  "failed_outcome (\<lambda>b. isl (json_categories (reads_as []) b))
     (makeApiCall local_cfg (offline_env 1000) ''/api/size/list'' GET_init) \<and>
   fst (p0_list_categories (reads_as []) local_cfg (offline_env 1000) initial_state)
     = Some \<lparr>content = [\<lparr>blockType = ''text'', blockText = ''No categories are currently available.''\<rparr>],
             isError = None\<rparr> \<and>
   \<not> is_error_result \<lparr>content = [\<lparr>blockType = ''text'',
                                   blockText = ''No categories are currently available.''\<rparr>],
                       isError = None\<rparr>"
  by (simp add: failed_outcome_def makeApiCall_def offline_env_def p0_list_categories_def
      getCategories_def p0_call_def initial_state_def text_result_def is_error_result_def)

lemma show_nat_503: "show_nat 503 = ''503''"
  by code_simp

text \<open>The texts of some failures: a status 503, a rejected fetch, a body that is not JSON, a missing file.\<close>

lemma failure_texts:
  "fst (ix_get_image_metadata sample_runtime local_cfg (disk_env 503 ''Service Unavailable'') [] ''42'')
     = error_result ''Failed to get image metadata: 503 Service Unavailable'' \<and>
   fst (p1_get_image_metadata sample_runtime local_cfg (offline_env 1000) [] ''42'')
     = error_result ''fetch failed'' \<and>
   fst (p0_get_image_metadata (reads_as []) local_cfg (disk_env 200 ''not json'') initial_state ''42'')
     = error_result ''Unexpected token'' \<and>
   fst (p0_upload_image (reads_as []) local_cfg (disk_env 200 ''{}'') initial_state ''avatars''
          ''/tmp/dog.png'')
     = error_result ''ENOENT: no such file or directory''"
  by (simp add: ix_get_image_metadata_def p1_get_image_metadata_def p0_get_image_metadata_def
      p0_upload_image_def uploadImage_def logged_call_def p0_call_def makeApiCall_def
      disk_env_def offline_env_def plain_response_def response_ok_def normalize_response_def
      errorMessage_def content_type_def finish_def and_then_def reads_as_def show_nat_503)

end
